theory Spec2Isabelle
  imports Complex_Main "HOL-Library.AList"
begin

section \<open>Text helpers of the Go standard library\<close>

text \<open>
  Go strings are byte sequences; they are modelled as \<^typ>\<open>string\<close>.
  Only the library functions the program calls on text it later inspects are
  modelled: \<^verbatim>\<open>strings.HasPrefix\<close>, \<^verbatim>\<open>strings.HasSuffix\<close>,
  \<^verbatim>\<open>strings.Contains\<close>, \<^verbatim>\<open>strings.TrimSuffix\<close>,
  \<^verbatim>\<open>strings.ToLower\<close> (on ASCII letters), \<^verbatim>\<open>filepath.Ext\<close>
  and the \<^verbatim>\<open>%d\<close> verb of \<^verbatim>\<open>fmt\<close>.
\<close>

definition HasPrefix :: "string \<Rightarrow> string \<Rightarrow> bool" where
  "HasPrefix s p = (take (length p) s = p)"

definition HasSuffix :: "string \<Rightarrow> string \<Rightarrow> bool" where
  "HasSuffix s suf =
     (length suf \<le> length s \<and> drop (length s - length suf) s = suf)"

fun Contains :: "string \<Rightarrow> string \<Rightarrow> bool" where
  "Contains [] sub = (sub = [])"
| "Contains (c # cs) sub = (HasPrefix (c # cs) sub \<or> Contains cs sub)"

definition TrimSuffix :: "string \<Rightarrow> string \<Rightarrow> string" where
  "TrimSuffix s suf =
     (if HasSuffix s suf then take (length s - length suf) s else s)"

definition lower_char :: "char \<Rightarrow> char" where
  "lower_char c =
     (case map_of (zip ''ABCDEFGHIJKLMNOPQRSTUVWXYZ'' ''abcdefghijklmnopqrstuvwxyz'') c of
        Some l \<Rightarrow> l
      | None \<Rightarrow> c)"

definition ToLower :: "string \<Rightarrow> string" where
  "ToLower s = map lower_char s"

text \<open>
  \<^verbatim>\<open>filepath.Ext\<close> scans from the end of the path up to the last path
  separator and returns the suffix that starts at the first dot it meets,
  or the empty string.
\<close>

definition Ext :: "string \<Rightarrow> string" where
  "Ext path =
     (let r = takeWhile (\<lambda>c. c \<noteq> CHR ''/'') (rev path)
      in if CHR ''.'' \<in> set r
         then CHR ''.'' # rev (takeWhile (\<lambda>c. c \<noteq> CHR ''.'') r)
         else [])"

text \<open>A decimal digit, for a number below ten.\<close>

definition digit_char :: "nat \<Rightarrow> char" where
  "digit_char d = ''0123456789'' ! d"

function show_nat :: "nat \<Rightarrow> string" where
  "show_nat n =
     (if n < 10 then [digit_char n]
      else show_nat (n div 10) @ [digit_char (n mod 10)])"
  by pat_completeness auto
termination
  by (relation "measure id") auto

declare show_nat.simps [simp del]

definition show_int :: "int \<Rightarrow> string" where
  "show_int i = (if i < 0 then CHR ''-'' # show_nat (nat (- i)) else show_nat (nat i))"

section \<open>World data (package world)\<close>

text \<open>
  A value of Go's \<^verbatim>\<open>interface{}\<close> as \<^verbatim>\<open>encoding/json\<close> produces it.
  A JSON number is a \<^verbatim>\<open>float64\<close> in Go; the program never computes with
  one, so it is carried as a real.
\<close>

datatype json_value =
    JNull
  | JBool bool
  | JNumber real
  | JString string
  | JArray "json_value list"
  | JObject "(string \<times> json_value) list"

text \<open>
  Several Go structs have a field \<^verbatim>\<open>ID\<close> or \<^verbatim>\<open>Name\<close>; record fields
  share one name space, so those fields carry the struct as a prefix.
\<close>

record LocationNode =
  LocID :: string
  LocName :: string
  Description :: string
  AdjacentIDs :: "string list"
  Tags :: "string list"
  ImageID :: string
  ThemeID :: string
  Attributes :: "(string \<times> json_value) list"

record ThemeDefinition =
  ThemeDefID :: string
  ThemeDefName :: string

text \<open>
  The two Go maps of the world system. A Go map has one entry per key; it is
  kept as an association list with distinct keys (stored with
  \<^const>\<open>AList.update\<close>, read with \<^const>\<open>map_of\<close>) so that the loop
  over all loaded locations in \<^verbatim>\<open>LoadWorldData\<close> can be run.
\<close>

record InMemoryWorldSystem =
  locations :: "(string \<times> LocationNode) list"
  themes :: "(string \<times> ThemeDefinition) list"

definition NewInMemoryWorldSystem :: InMemoryWorldSystem where
  "NewInMemoryWorldSystem = \<lparr>locations = [], themes = []\<rparr>"

text \<open>
  The errors of the world queries. Their text is what \<^verbatim>\<open>err.Error()\<close>
  returns; the action executor searches it.
\<close>

datatype world_error =
    LocationNotFound string
  | ThemeNotFound string
  | CurrentLocationNotFound string
  | TargetLocationNotFound string

definition quoted :: "string \<Rightarrow> string" where
  "quoted s = CHR 0x27 # s @ [CHR 0x27]"

fun world_error_text :: "world_error \<Rightarrow> string" where
  "world_error_text (LocationNotFound i) =
     ''location with ID '' @ quoted i @ '' not found''"
| "world_error_text (ThemeNotFound i) =
     ''theme definition with ID '' @ quoted i @ '' not found''"
| "world_error_text (CurrentLocationNotFound i) =
     ''current location with ID '' @ quoted i @ '' not found''"
| "world_error_text (TargetLocationNotFound i) =
     ''target location with ID '' @ quoted i @ '' not found''"

definition GetLocation :: "InMemoryWorldSystem \<Rightarrow> string \<Rightarrow> world_error + LocationNode" where
  "GetLocation ws locationID =
     (case map_of (locations ws) locationID of
        None \<Rightarrow> Inl (LocationNotFound locationID)
      | Some loc \<Rightarrow> Inr loc)"

definition GetTheme :: "InMemoryWorldSystem \<Rightarrow> string \<Rightarrow> world_error + ThemeDefinition" where
  "GetTheme ws themeID =
     (case map_of (themes ws) themeID of
        None \<Rightarrow> Inl (ThemeNotFound themeID)
      | Some theme \<Rightarrow> Inr theme)"

text \<open>The loop of \<^verbatim>\<open>IsAdjacent\<close> over the stored adjacency list.\<close>

fun adjacent_scan :: "string list \<Rightarrow> string \<Rightarrow> bool" where
  "adjacent_scan [] targetLocationID = False"
| "adjacent_scan (adjID # rest) targetLocationID =
     (if adjID = targetLocationID then True else adjacent_scan rest targetLocationID)"

definition IsAdjacent :: "InMemoryWorldSystem \<Rightarrow> string \<Rightarrow> string \<Rightarrow> world_error + bool" where
  "IsAdjacent ws currentLocationID targetLocationID =
     (case map_of (locations ws) currentLocationID of
        None \<Rightarrow> Inl (CurrentLocationNotFound currentLocationID)
      | Some currentLoc \<Rightarrow>
          (case map_of (locations ws) targetLocationID of
             None \<Rightarrow> Inl (TargetLocationNotFound targetLocationID)
           | Some _ \<Rightarrow> Inr (adjacent_scan (AdjacentIDs currentLoc) targetLocationID)))"

definition ValidateThemeExists :: "InMemoryWorldSystem \<Rightarrow> string \<Rightarrow> bool" where
  "ValidateThemeExists ws themeID = (map_of (themes ws) themeID \<noteq> None)"

fun adjacent_collect :: "InMemoryWorldSystem \<Rightarrow> string list \<Rightarrow> LocationNode list" where
  "adjacent_collect ws [] = []"
| "adjacent_collect ws (adjID # rest) =
     (case map_of (locations ws) adjID of
        Some loc \<Rightarrow> loc # adjacent_collect ws rest
      | None \<Rightarrow> adjacent_collect ws rest)"

definition GetAdjacentLocations ::
  "InMemoryWorldSystem \<Rightarrow> string \<Rightarrow> world_error + LocationNode list" where
  "GetAdjacentLocations ws locationID =
     (case GetLocation ws locationID of
        Inl err \<Rightarrow> Inl err
      | Inr currentLoc \<Rightarrow> Inr (adjacent_collect ws (AdjacentIDs currentLoc)))"

section \<open>Characters and sessions (packages character and session)\<close>

record Character =
  CharID :: string
  CharName :: string
  Class :: string
  Origin :: string
  Level :: int

definition NewCharacter :: "string \<Rightarrow> string \<Rightarrow> string \<Rightarrow> string \<Rightarrow> Character" where
  "NewCharacter i name class origin =
     \<lparr>CharID = i, CharName = name, Class = class, Origin = origin, Level = 1\<rparr>"

text \<open>
  A \<^verbatim>\<open>time.Time\<close> is the integer \<^verbatim>\<open>UnixNano\<close> reads from it. The
  \<^verbatim>\<open>Player\<close> pointer of a session is never nil for a session made by
  \<^verbatim>\<open>CreateNewSession\<close>, the only constructor; the field holds the
  character itself.
\<close>

record GameSession =
  SessionID :: string
  Player :: Character
  CurrentLocationID :: string
  CreatedAt :: int
  LastActive :: int
  RecentActions :: "string list"

definition maxRecentActions :: nat where
  "maxRecentActions = 5"

definition AddRecentAction :: "GameSession \<Rightarrow> string \<Rightarrow> GameSession" where
  "AddRecentAction sess actionSummary =
     (let appended = RecentActions sess @ [actionSummary]
      in if length appended > maxRecentActions
         then sess\<lparr>RecentActions := drop (length appended - maxRecentActions) appended\<rparr>
         else sess\<lparr>RecentActions := appended\<rparr>)"

text \<open>
  The manager's map from session id to session pointer. Every pointer in it
  was allocated by \<^verbatim>\<open>CreateNewSession\<close> for its own key, so no two
  keys share a session: the map holds the sessions themselves, and a write
  through the pointer fetched for a key is an update of the map at that key.
\<close>

record InMemorySessionManager =
  sessions :: "string \<rightharpoonup> GameSession"

definition NewInMemorySessionManager :: InMemorySessionManager where
  "NewInMemorySessionManager = \<lparr>sessions = Map.empty\<rparr>"

datatype session_error =
    NilPlayer
  | PlayerWithoutID
  | SessionIDCollision
  | SessionNotFound string
  | UpdateNilSession
  | SessionNotManaged string

text \<open>
  \<^verbatim>\<open>CreateNewSession\<close> reads the clock three times: for the identifier,
  for \<^verbatim>\<open>CreatedAt\<close> and for \<^verbatim>\<open>LastActive\<close>. The three readings are
  arguments. A nil player pointer is \<^const>\<open>None\<close>.
\<close>

definition CreateNewSession ::
  "InMemorySessionManager \<Rightarrow> Character option \<Rightarrow> string \<Rightarrow> int \<Rightarrow> int \<Rightarrow> int
     \<Rightarrow> (session_error + GameSession) \<times> InMemorySessionManager" where
  "CreateNewSession sm player startLocationID nowID nowCreated nowActive =
     (case player of
        None \<Rightarrow> (Inl NilPlayer, sm)
      | Some p \<Rightarrow>
          if CharID p = [] then (Inl PlayerWithoutID, sm)
          else
            let newID = ''session_'' @ CharID p @ ''_'' @ show_int nowID
            in if sessions sm newID \<noteq> None then (Inl SessionIDCollision, sm)
               else
                 let sess = \<lparr>SessionID = newID, Player = p,
                             CurrentLocationID = startLocationID,
                             CreatedAt = nowCreated, LastActive = nowActive,
                             RecentActions = []\<rparr>
                 in (Inr sess, sm\<lparr>sessions := (sessions sm)(newID \<mapsto> sess)\<rparr>))"

definition GetSession ::
  "InMemorySessionManager \<Rightarrow> string \<Rightarrow> int
     \<Rightarrow> (session_error + GameSession) \<times> InMemorySessionManager" where
  "GetSession sm sessionID now =
     (case sessions sm sessionID of
        None \<Rightarrow> (Inl (SessionNotFound sessionID), sm)
      | Some sess \<Rightarrow>
          let sess' = sess\<lparr>LastActive := now\<rparr>
          in (Inr sess', sm\<lparr>sessions := (sessions sm)(sessionID \<mapsto> sess')\<rparr>))"

text \<open>
  \<^verbatim>\<open>UpdateSession\<close> gets a session pointer; here it gets the session the
  pointer leads to (\<^const>\<open>None\<close> for nil) and returns it with the refreshed
  timestamp. The map itself is only read.
\<close>

definition UpdateSession ::
  "InMemorySessionManager \<Rightarrow> GameSession option \<Rightarrow> int
     \<Rightarrow> session_error option \<times> GameSession option" where
  "UpdateSession sm session now =
     (case session of
        None \<Rightarrow> (Some UpdateNilSession, None)
      | Some sess \<Rightarrow>
          (case sessions sm (SessionID sess) of
             None \<Rightarrow> (Some (SessionNotManaged (SessionID sess)), Some sess)
           | Some existingSession \<Rightarrow> (None, Some (sess\<lparr>LastActive := now\<rparr>))))"

section \<open>The action executor (package narrative)\<close>

record LLMAction =
  Type :: string
  Data :: "string \<rightharpoonup> json_value"

record LLMResponse =
  Narrative :: string
  Suggestions :: "string list"
  Actions :: "LLMAction list"

definition UpdateLocation :: string where "UpdateLocation = ''updateLocation''"
definition AddItem :: string where "AddItem = ''addItem''"
definition RemoveItem :: string where "RemoveItem = ''removeItem''"
definition ApplyEffect :: string where "ApplyEffect = ''applyEffect''"

record SimpleActionExecutor =
  WorldSystem :: InMemoryWorldSystem

text \<open>
  The errors of the executor, one constructor per message of the source:
  \<^item> \<open>NilSessionError\<close>: "cannot execute actions on a nil session";
  \<^item> \<open>MissingLocationId\<close>, \<open>LocationIdNotString\<close>, \<open>LocationIdEmpty\<close>:
    the three complaints about the \<^verbatim>\<open>locationId\<close> field (the
    specification's InvalidActionData);
  \<^item> \<open>LocationDoesNotExist\<close>: "validation failed - location does not exist",
    wrapping the world system's error;
  \<^item> \<open>AdjacencyCheckError\<close>: "error checking adjacency via WorldSystem",
    wrapping the world system's error;
  \<^item> \<open>NotAdjacent target current\<close>: "validation failed - target location ... is
    not adjacent to current location ...";
  \<^item> \<open>RequiresInventorySystem\<close>, \<open>RequiresEffectSystem\<close>: "... (not
    implemented yet)";
  \<^item> \<open>UnknownActionType\<close>: "unknown or unsupported action type received from LLM";
  \<^item> \<open>FailedToExecute type data err\<close>: the wrapper "failed to execute action
    (type: ..., data: ...)" that \<^verbatim>\<open>ExecuteActions\<close> puts around each error.
\<close>

datatype exec_error =
    NilSessionError
  | MissingLocationId
  | LocationIdNotString
  | LocationIdEmpty
  | LocationDoesNotExist world_error
  | AdjacencyCheckError world_error
  | NotAdjacent string string
  | RequiresInventorySystem string
  | RequiresEffectSystem string
  | UnknownActionType string
  | FailedToExecute string "string \<rightharpoonup> json_value" exec_error

text \<open>
  \<^verbatim>\<open>handleUpdateLocation\<close> returns its error (\<^const>\<open>None\<close> for nil) and
  the session as the pointer's target is left.
\<close>

definition handleUpdateLocation ::
  "SimpleActionExecutor \<Rightarrow> LLMAction \<Rightarrow> GameSession
     \<Rightarrow> exec_error option \<times> GameSession" where
  "handleUpdateLocation e action currentSession =
     (case Data action ''locationId'' of
        None \<Rightarrow> (Some MissingLocationId, currentSession)
      | Some locationIDData \<Rightarrow>
          (case locationIDData of
             JString targetLocationID \<Rightarrow>
               if targetLocationID = [] then (Some LocationIdEmpty, currentSession)
               else
                 let currentLocationID = CurrentLocationID currentSession
                 in if currentLocationID = targetLocationID then (None, currentSession)
                    else
                      (case IsAdjacent (WorldSystem e) currentLocationID targetLocationID of
                         Inl err \<Rightarrow>
                           if Contains (world_error_text err) ''not found''
                           then (Some (LocationDoesNotExist err), currentSession)
                           else (Some (AdjacencyCheckError err), currentSession)
                       | Inr isAdj \<Rightarrow>
                           if \<not> isAdj
                           then (Some (NotAdjacent targetLocationID currentLocationID),
                                 currentSession)
                           else (None,
                                 currentSession\<lparr>CurrentLocationID := targetLocationID\<rparr>))
           | _ \<Rightarrow> (Some LocationIdNotString, currentSession)))"

text \<open>The \<^verbatim>\<open>switch\<close> of the loop body.\<close>

definition dispatch_action ::
  "SimpleActionExecutor \<Rightarrow> LLMAction \<Rightarrow> GameSession
     \<Rightarrow> exec_error option \<times> GameSession" where
  "dispatch_action e action currentSession =
     (if Type action = UpdateLocation then handleUpdateLocation e action currentSession
      else if Type action = AddItem
        then (Some (RequiresInventorySystem (Type action)), currentSession)
      else if Type action = RemoveItem
        then (Some (RequiresInventorySystem (Type action)), currentSession)
      else if Type action = ApplyEffect
        then (Some (RequiresEffectSystem (Type action)), currentSession)
      else (Some (UnknownActionType (Type action)), currentSession))"

text \<open>
  The loop of \<^verbatim>\<open>ExecuteActions\<close>, with the slice of collected errors
  as accumulator: an error is wrapped and appended, a success is logged to the
  session's recent actions.
\<close>

fun execute_loop ::
  "SimpleActionExecutor \<Rightarrow> LLMAction list \<Rightarrow> GameSession \<Rightarrow> exec_error list
     \<Rightarrow> exec_error list \<times> GameSession" where
  "execute_loop e [] currentSession executionErrors = (executionErrors, currentSession)"
| "execute_loop e (action # rest) currentSession executionErrors =
     (case dispatch_action e action currentSession of
        (Some err, sess) \<Rightarrow>
          execute_loop e rest sess
            (executionErrors @ [FailedToExecute (Type action) (Data action) err])
      | (None, sess) \<Rightarrow>
          execute_loop e rest
            (AddRecentAction sess (''System executed: '' @ Type action))
            executionErrors)"

definition ExecuteActions ::
  "SimpleActionExecutor \<Rightarrow> LLMAction list \<Rightarrow> GameSession option
     \<Rightarrow> exec_error list \<times> GameSession option" where
  "ExecuteActions e actions currentSession =
     (case currentSession of
        None \<Rightarrow> ([NilSessionError], None)
      | Some sess \<Rightarrow>
          (case execute_loop e actions sess [] of
             (executionErrors, sess') \<Rightarrow> (executionErrors, Some sess')))"

section \<open>The narrative engine (package narrative)\<close>

record PlayerContextData =
  PlayerName :: string
  PlayerClass :: string
  PlayerOrigin :: string
  PlayerLevel :: int

record LocationContextData =
  CurrentLocationName :: string
  CurrentLocationDesc :: string
  AdjacentLocationIDs :: "string list"
  AdjacentLocationNames :: "string list"
  CurrentThemeID :: string

text \<open>
  \<^verbatim>\<open>TimeElapsed\<close> is the duration since the session was created, as
  \<^verbatim>\<open>time.Since\<close> computes it; its rounding and rendering as text are
  left out.
\<close>

record SessionContextData =
  TimeElapsed :: int
  ContextRecentActions :: "string list"

record PromptData =
  PlayerContext :: PlayerContextData
  LocationContext :: LocationContextData
  SessionContext :: SessionContextData
  PlayerInput :: string

datatype llm_error = GenerationFailed string

text \<open>
  The adapter is an interface whose implementation calls a remote service;
  it is a function from the system prompt and the prompt data to an error or
  a response. The executor is the \<^verbatim>\<open>SimpleActionExecutor\<close>. The session
  manager is the state the engine's operations pass along.
\<close>

record NarrativeEngine =
  EngineWorldSystem :: InMemoryWorldSystem
  LLMAdapter :: "string \<Rightarrow> PromptData \<Rightarrow> llm_error + LLMResponse"
  ActionExecutor :: SimpleActionExecutor
  SystemPrompt :: string

datatype context_error = CurrentLocationDetailsFailed string world_error

datatype turn_error =
    RetrieveSessionFailed string session_error
  | BuildPromptContextFailed string context_error
  | LLMAdapterFailed string llm_error

definition name_with_id :: "LocationNode \<Rightarrow> string" where
  "name_with_id node = LocID node @ '' ('' @ LocName node @ '')''"

definition buildPromptContext ::
  "NarrativeEngine \<Rightarrow> GameSession \<Rightarrow> int \<Rightarrow> context_error + PromptData" where
  "buildPromptContext ne currentSession now =
     (let playerCtx = \<lparr>PlayerName = CharName (Player currentSession),
                        PlayerClass = Class (Player currentSession),
                        PlayerOrigin = Origin (Player currentSession),
                        PlayerLevel = Level (Player currentSession)\<rparr>
      in (case GetLocation (EngineWorldSystem ne) (CurrentLocationID currentSession) of
           Inl err \<Rightarrow>
             Inl (CurrentLocationDetailsFailed (CurrentLocationID currentSession) err)
         | Inr currentLoc \<Rightarrow>
             let adjacentLocNodes =
                   (case GetAdjacentLocations (EngineWorldSystem ne)
                           (CurrentLocationID currentSession) of
                      Inl err \<Rightarrow> []
                    | Inr nodes \<Rightarrow> nodes);
                 locCtx = \<lparr>CurrentLocationName = name_with_id currentLoc,
                            CurrentLocationDesc = Description currentLoc,
                            AdjacentLocationIDs = map LocID adjacentLocNodes,
                            AdjacentLocationNames = map name_with_id adjacentLocNodes,
                            CurrentThemeID = ThemeID currentLoc\<rparr>;
                 sessionCtx = \<lparr>TimeElapsed = now - CreatedAt currentSession,
                                ContextRecentActions = RecentActions currentSession\<rparr>
             in Inr \<lparr>PlayerContext = playerCtx, LocationContext = locCtx,
                      SessionContext = sessionCtx, PlayerInput = []\<rparr>))"

definition errorNarrative :: "nat \<Rightarrow> string" where
  "errorNarrative n =
     ''[System Error processing actions: '' @ show_int (int n) @
     '' error(s) occurred. The story continues...]'' @ [CHR 0x0A, CHR 0x0A]"

text \<open>
  The session manager after the session behind the pointer fetched for
  \<open>sessionID\<close> has become \<open>sess\<close>.
\<close>

definition written_through ::
  "InMemorySessionManager \<Rightarrow> string \<Rightarrow> GameSession option \<Rightarrow> InMemorySessionManager" where
  "written_through sm sessionID sess =
     (case sess of
        None \<Rightarrow> sm
      | Some s \<Rightarrow> sm\<lparr>sessions := (sessions sm)(sessionID \<mapsto> s)\<rparr>)"

text \<open>Step 4 of a turn: the actions of the response are executed, if any.\<close>

definition execute_response ::
  "NarrativeEngine \<Rightarrow> LLMResponse \<Rightarrow> GameSession \<Rightarrow> LLMResponse \<times> GameSession option" where
  "execute_response ne llmResponse currentSession =
     (if length (Actions llmResponse) > 0
      then
        (case ExecuteActions (ActionExecutor ne) (Actions llmResponse) (Some currentSession) of
           (executionErrors, sess) \<Rightarrow>
             if length executionErrors > 0
             then (llmResponse\<lparr>Narrative :=
                     errorNarrative (length executionErrors) @ Narrative llmResponse\<rparr>, sess)
             else (llmResponse, sess))
      else (llmResponse, Some currentSession))"

text \<open>
  One turn. The clock is read by \<^verbatim>\<open>GetSession\<close>, by
  \<^verbatim>\<open>buildPromptContext\<close> and by \<^verbatim>\<open>UpdateSession\<close>; the three readings
  are arguments. The result is the returned response or error, and the session
  manager as the turn leaves it. An error of \<^verbatim>\<open>UpdateSession\<close> is only
  printed.
\<close>

definition ProcessPlayerInput ::
  "NarrativeEngine \<Rightarrow> InMemorySessionManager \<Rightarrow> string \<Rightarrow> string \<Rightarrow> int \<Rightarrow> int \<Rightarrow> int
     \<Rightarrow> (turn_error + LLMResponse) \<times> InMemorySessionManager" where
  "ProcessPlayerInput ne sm sessionID playerInput nowGet nowContext nowUpdate =
     (case GetSession sm sessionID nowGet of
        (Inl err, sm1) \<Rightarrow> (Inl (RetrieveSessionFailed sessionID err), sm1)
      | (Inr fetched, sm1) \<Rightarrow>
          let currentSession = AddRecentAction fetched (''Player: '' @ playerInput);
              sm2 = written_through sm1 sessionID (Some currentSession)
          in (case buildPromptContext ne currentSession nowContext of
                Inl err \<Rightarrow> (Inl (BuildPromptContextFailed sessionID err), sm2)
              | Inr promptData \<Rightarrow>
                  (case LLMAdapter ne (SystemPrompt ne)
                          (promptData\<lparr>PlayerInput := playerInput\<rparr>) of
                     Inl err \<Rightarrow> (Inl (LLMAdapterFailed sessionID err), sm2)
                   | Inr llmResponse \<Rightarrow>
                       (case execute_response ne llmResponse currentSession of
                          (finalResponse, executed) \<Rightarrow>
                            (let sm3 = written_through sm2 sessionID executed
                             in (case UpdateSession sm3 executed nowUpdate of
                                   (updateErr, updated) \<Rightarrow>
                                     (Inr finalResponse,
                                      written_through sm3 sessionID updated)))))))"

section \<open>Loading the world data\<close>

text \<open>
  \<^verbatim>\<open>LoadWorldData\<close> walks two directories with \<^verbatim>\<open>filepath.WalkDir\<close>.
  A directory entry is a directory or a file; a file comes with what
  \<^verbatim>\<open>os.ReadFile\<close> and \<^verbatim>\<open>json.Unmarshal\<close> make of it.
\<close>

datatype 'a file_content = ReadFailed | ParseFailed | Parsed 'a

datatype 'a dir_entry = Directory string | File string "'a file_content"

text \<open>
  What the file system gives a walk. When \<^verbatim>\<open>os.Lstat\<close> fails on the
  root (the path does not exist or cannot be reached), the walk is
  \<open>RootUnreadable\<close>. Otherwise it is the list of the entries visited, the
  root first and then everything below it in lexical order; a directory
  whose listing fails is visited a second time.
\<close>

datatype 'a walk = RootUnreadable | Visited "'a dir_entry list"

datatype load_error =
    ThemeReadFailed string
  | ThemeParseFailed string
  | DuplicateThemeID string string
  | LocationReadFailed string
  | LocationParseFailed string
  | DuplicateLocationID string string
  | NonExistentTheme string string string
  | NonExistentAdjacent string string string

datatype load_failure = ErrorsDuringLoading

definition is_json_name :: "string \<Rightarrow> bool" where
  "is_json_name name = HasSuffix (ToLower name) ''.json''"

definition name_as_id :: "string \<Rightarrow> string" where
  "name_as_id name = TrimSuffix name (Ext name)"

definition theme_with_id :: "string \<Rightarrow> ThemeDefinition \<Rightarrow> ThemeDefinition" where
  "theme_with_id name theme =
     (if ThemeDefID theme = [] then theme\<lparr>ThemeDefID := name_as_id name\<rparr> else theme)"

definition location_with_id :: "string \<Rightarrow> LocationNode \<Rightarrow> LocationNode" where
  "location_with_id name loc =
     (if LocID loc = [] then loc\<lparr>LocID := name_as_id name\<rparr> else loc)"

text \<open>
  The callback of the walk over the theme directory, on an entry that is not
  nil.
\<close>

fun load_theme ::
  "ThemeDefinition dir_entry \<Rightarrow> InMemoryWorldSystem \<times> load_error list
     \<Rightarrow> InMemoryWorldSystem \<times> load_error list" where
  "load_theme (Directory name) (ws, loadErrors) = (ws, loadErrors)"
| "load_theme (File name content) (ws, loadErrors) =
     (if \<not> is_json_name name then (ws, loadErrors)
      else
        (case content of
           ReadFailed \<Rightarrow> (ws, loadErrors @ [ThemeReadFailed name])
         | ParseFailed \<Rightarrow> (ws, loadErrors @ [ThemeParseFailed name])
         | Parsed parsed \<Rightarrow>
             let theme = theme_with_id name parsed
             in if map_of (themes ws) (ThemeDefID theme) \<noteq> None
                then (ws, loadErrors @ [DuplicateThemeID (ThemeDefID theme) name])
                else (ws\<lparr>themes := AList.update (ThemeDefID theme) theme (themes ws)\<rparr>,
                      loadErrors)))"

text \<open>
  The callback of the walk over the location directory, on an entry that is
  not nil.
\<close>

fun load_location ::
  "LocationNode dir_entry \<Rightarrow> InMemoryWorldSystem \<times> load_error list
     \<Rightarrow> InMemoryWorldSystem \<times> load_error list" where
  "load_location (Directory name) (ws, loadErrors) = (ws, loadErrors)"
| "load_location (File name content) (ws, loadErrors) =
     (if \<not> is_json_name name then (ws, loadErrors)
      else
        (case content of
           ReadFailed \<Rightarrow> (ws, loadErrors @ [LocationReadFailed name])
         | ParseFailed \<Rightarrow> (ws, loadErrors @ [LocationParseFailed name])
         | Parsed parsed \<Rightarrow>
             let loc = location_with_id name parsed
             in if map_of (locations ws) (LocID loc) \<noteq> None
                then (ws, loadErrors @ [DuplicateLocationID (LocID loc) name])
                else if ThemeID loc \<noteq> [] \<and> map_of (themes ws) (ThemeID loc) = None
                then (ws, loadErrors @ [NonExistentTheme (LocName loc) (LocID loc) (ThemeID loc)])
                else (ws\<lparr>locations := AList.update (LocID loc) loc (locations ws)\<rparr>,
                      loadErrors)))"

text \<open>
  The validation after the walks: every adjacency identifier of every loaded
  location must be loaded. Go visits the map in no fixed order; the order
  here is the order of loading, and it only decides the order of the errors,
  which \<^verbatim>\<open>LoadWorldData\<close> does not return.
\<close>

fun check_adjacent ::
  "InMemoryWorldSystem \<Rightarrow> LocationNode \<Rightarrow> string list \<Rightarrow> load_error list" where
  "check_adjacent ws loc [] = []"
| "check_adjacent ws loc (adjID # rest) =
     (if map_of (locations ws) adjID = None
      then NonExistentAdjacent (LocName loc) (LocID loc) adjID # check_adjacent ws loc rest
      else check_adjacent ws loc rest)"

definition check_adjacency :: "InMemoryWorldSystem \<Rightarrow> load_error list" where
  "check_adjacency ws =
     concat (map (\<lambda>(k, loc). check_adjacent ws loc (AdjacentIDs loc)) (locations ws))"

text \<open>
  A callback as \<^verbatim>\<open>WalkDir\<close> calls it. Both callbacks of the source
  ignore their error argument and begin with \<^verbatim>\<open>d.IsDir()\<close>: on a nil
  entry that call panics (\<^const>\<open>None\<close>); on an entry the callback does its
  work and returns nil.
\<close>

fun walk_callback ::
  "('a dir_entry \<Rightarrow> 's \<Rightarrow> 's) \<Rightarrow> 'a dir_entry option \<Rightarrow> 's \<Rightarrow> 's option" where
  "walk_callback body None st = None"
| "walk_callback body (Some d) st = Some (body d st)"

text \<open>
  \<^verbatim>\<open>filepath.WalkDir\<close>. When the root cannot be stat'ed it calls the
  callback once, with a nil entry and the error. Otherwise it calls the
  callback on every visited entry in turn, going on as long as the callback
  returns nil. The result is the state the callbacks leave, or
  \<^const>\<open>None\<close> when a callback panicked. The error \<^verbatim>\<open>WalkDir\<close>
  returns is the one a callback returned; the callbacks of the source return
  nil only, so the walks of \<^verbatim>\<open>LoadWorldData\<close> return nil.
\<close>

fun visit_entries ::
  "('a dir_entry option \<Rightarrow> 's \<Rightarrow> 's option) \<Rightarrow> 'a dir_entry list \<Rightarrow> 's \<Rightarrow> 's option" where
  "visit_entries fn [] st = Some st"
| "visit_entries fn (d # rest) st =
     (case fn (Some d) st of
        None \<Rightarrow> None
      | Some st' \<Rightarrow> visit_entries fn rest st')"

definition WalkDir ::
  "'a walk \<Rightarrow> ('a dir_entry option \<Rightarrow> 's \<Rightarrow> 's option) \<Rightarrow> 's \<Rightarrow> 's option" where
  "WalkDir dir fn st =
     (case dir of
        RootUnreadable \<Rightarrow> fn None st
      | Visited entries \<Rightarrow> visit_entries fn entries st)"

text \<open>
  \<^verbatim>\<open>LoadWorldData\<close> either panics, which ends the program of the source
  (nothing recovers from it), or returns nil or its one error and leaves
  the world system with the maps as the two walks filled them.
\<close>

datatype load_result =
    Panics
  | Returns "load_failure option" InMemoryWorldSystem

definition LoadWorldData ::
  "InMemoryWorldSystem \<Rightarrow> LocationNode walk \<Rightarrow> ThemeDefinition walk \<Rightarrow> load_result" where
  "LoadWorldData ws locationDir themeDir =
     (case WalkDir themeDir (walk_callback load_theme)
             (ws\<lparr>locations := [], themes := []\<rparr>, []) of
        None \<Rightarrow> Panics
      | Some (ws1, errs1) \<Rightarrow>
          (case WalkDir locationDir (walk_callback load_location) (ws1, errs1) of
             None \<Rightarrow> Panics
           | Some (ws2, errs2) \<Rightarrow>
               (let loadErrors = errs2 @ check_adjacency ws2
                in Returns (if length loadErrors > 0 then Some ErrorsDuringLoading else None)
                     ws2)))"

section \<open>Sample data\<close>

text \<open>
  A small world with a one-way road: the gate and the village lead to each
  other, the village leads to the market, and the market leads nowhere.
\<close>

definition plain_location :: "string \<Rightarrow> string list \<Rightarrow> LocationNode" where
  "plain_location i adj =
     \<lparr>LocID = i, LocName = i, Description = [], AdjacentIDs = adj, Tags = [],
      ImageID = [], ThemeID = [], Attributes = []\<rparr>"

definition sample_world :: InMemoryWorldSystem where
  "sample_world =
     \<lparr>locations = [(''gate'', plain_location ''gate'' [''village'']),
                   (''village'', plain_location ''village'' [''gate'', ''market'']),
                   (''market'', plain_location ''market'' [])],
      themes = []\<rparr>"

definition sample_executor :: SimpleActionExecutor where
  "sample_executor = \<lparr>WorldSystem = sample_world\<rparr>"

definition sample_session :: "string \<Rightarrow> GameSession" where
  "sample_session loc =
     \<lparr>SessionID = ''session_p1_1'', Player = NewCharacter ''p1'' ''Ash'' [] [],
      CurrentLocationID = loc, CreatedAt = 1, LastActive = 1, RecentActions = []\<rparr>"

definition move_to :: "string \<Rightarrow> LLMAction" where
  "move_to target = \<lparr>Type = UpdateLocation, Data = [''locationId'' \<mapsto> JString target]\<rparr>"

definition add_item :: LLMAction where
  "add_item = \<lparr>Type = AddItem, Data = Map.empty\<rparr>"

section \<open>Per-action outcomes\<close>

text \<open>
  The specification speaks of one outcome slot per action. \<open>sequential_outcomes\<close>
  follows those words: the actions run in order, each on the session the
  earlier ones left, and every action gets a slot that is \<^const>\<open>None\<close> when
  it succeeded and its wrapped error when it failed. \<open>session_after\<close> is the
  session that run leaves. Both are compared below with what
  \<^verbatim>\<open>ExecuteActions\<close> returns.
\<close>

fun sequential_outcomes ::
  "SimpleActionExecutor \<Rightarrow> LLMAction list \<Rightarrow> GameSession \<Rightarrow> exec_error option list" where
  "sequential_outcomes e [] sess = []"
| "sequential_outcomes e (action # rest) sess =
     (case dispatch_action e action sess of
        (Some err, sess') \<Rightarrow>
          Some (FailedToExecute (Type action) (Data action) err)
            # sequential_outcomes e rest sess'
      | (None, sess') \<Rightarrow>
          None # sequential_outcomes e rest
                   (AddRecentAction sess' (''System executed: '' @ Type action)))"

fun session_after ::
  "SimpleActionExecutor \<Rightarrow> LLMAction list \<Rightarrow> GameSession \<Rightarrow> GameSession" where
  "session_after e [] sess = sess"
| "session_after e (action # rest) sess =
     (case dispatch_action e action sess of
        (Some err, sess') \<Rightarrow> session_after e rest sess'
      | (None, sess') \<Rightarrow>
          session_after e rest (AddRecentAction sess' (''System executed: '' @ Type action)))"

section \<open>Sample engine\<close>

definition failing_adapter :: "string \<Rightarrow> PromptData \<Rightarrow> llm_error + LLMResponse" where
  "failing_adapter systemPrompt promptData = Inl (GenerationFailed ''transport error'')"

definition fixed_adapter ::
  "LLMResponse \<Rightarrow> string \<Rightarrow> PromptData \<Rightarrow> llm_error + LLMResponse" where
  "fixed_adapter response systemPrompt promptData = Inr response"

definition sample_engine ::
  "(string \<Rightarrow> PromptData \<Rightarrow> llm_error + LLMResponse) \<Rightarrow> NarrativeEngine" where
  "sample_engine adapter =
     \<lparr>EngineWorldSystem = sample_world, LLMAdapter = adapter,
      ActionExecutor = sample_executor, SystemPrompt = ''You are the narrator.''\<rparr>"

definition sample_manager :: InMemorySessionManager where
  "sample_manager = \<lparr>sessions = [''session_p1_1'' \<mapsto> sample_session ''gate'']\<rparr>"

definition walk_response :: LLMResponse where
  "walk_response =
     \<lparr>Narrative = ''You walk.'', Suggestions = [], Actions = [move_to ''nowhere'']\<rparr>"

section \<open>The records of a load\<close>

text \<open>
  The words of the specification about a load, over the two walks. The
  records of a walk are what its readable, well-formed JSON files hold, with
  the identifier taken from the file name where the file gives none. A
  location has a dangling theme reference when it names a theme that no
  theme record has; a dangling adjacency reference when it names an adjacent
  location that no location record has; identifiers are duplicated when two
  theme records or two location records share one.
\<close>

fun theme_record :: "ThemeDefinition dir_entry \<Rightarrow> ThemeDefinition option" where
  "theme_record (Directory name) = None"
| "theme_record (File name content) =
     (if is_json_name name
      then (case content of Parsed parsed \<Rightarrow> Some (theme_with_id name parsed) | _ \<Rightarrow> None)
      else None)"

fun location_record :: "LocationNode dir_entry \<Rightarrow> LocationNode option" where
  "location_record (Directory name) = None"
| "location_record (File name content) =
     (if is_json_name name
      then (case content of Parsed parsed \<Rightarrow> Some (location_with_id name parsed) | _ \<Rightarrow> None)
      else None)"

definition theme_records :: "ThemeDefinition dir_entry list \<Rightarrow> ThemeDefinition list" where
  "theme_records themeDir = List.map_filter theme_record themeDir"

definition location_records :: "LocationNode dir_entry list \<Rightarrow> LocationNode list" where
  "location_records locationDir = List.map_filter location_record locationDir"

definition dangling_theme_reference ::
  "LocationNode dir_entry list \<Rightarrow> ThemeDefinition dir_entry list \<Rightarrow> bool" where
  "dangling_theme_reference locationDir themeDir =
     (\<exists>loc \<in> set (location_records locationDir).
        ThemeID loc \<noteq> [] \<and> ThemeID loc \<notin> set (map ThemeDefID (theme_records themeDir)))"

definition dangling_adjacency_reference :: "LocationNode dir_entry list \<Rightarrow> bool" where
  "dangling_adjacency_reference locationDir =
     (\<exists>loc \<in> set (location_records locationDir).
        \<exists>adjID \<in> set (AdjacentIDs loc).
          adjID \<notin> set (map LocID (location_records locationDir)))"

definition duplicate_identifier ::
  "LocationNode dir_entry list \<Rightarrow> ThemeDefinition dir_entry list \<Rightarrow> bool" where
  "duplicate_identifier locationDir themeDir =
     (\<not> distinct (map LocID (location_records locationDir)) \<or>
      \<not> distinct (map ThemeDefID (theme_records themeDir)))"

text \<open>
  Records under their identifiers, as \<^const>\<open>map_of\<close> reads them (the first
  record of an identifier wins), and the test \<^verbatim>\<open>LoadWorldData\<close> makes
  of a location's theme against the loaded themes.
\<close>

definition keyed_themes :: "ThemeDefinition list \<Rightarrow> (string \<times> ThemeDefinition) list" where
  "keyed_themes ts = map (\<lambda>t. (ThemeDefID t, t)) ts"

definition keyed_locations :: "LocationNode list \<Rightarrow> (string \<times> LocationNode) list" where
  "keyed_locations ls = map (\<lambda>l. (LocID l, l)) ls"

definition theme_resolves :: "(string \<times> ThemeDefinition) list \<Rightarrow> LocationNode \<Rightarrow> bool" where
  "theme_resolves ths loc = (ThemeID loc = [] \<or> map_of ths (ThemeID loc) \<noteq> None)"

text \<open>
  A load with a dangling theme reference: the cave names a theme that is
  not there.
\<close>

definition themed_location :: "string \<Rightarrow> string \<Rightarrow> LocationNode" where
  "themed_location i theme = (plain_location i [])\<lparr>ThemeID := theme\<rparr>"

definition broken_theme_dir :: "ThemeDefinition dir_entry list" where
  "broken_theme_dir =
     [Directory ''themes'',
      File ''ruins.json'' (Parsed \<lparr>ThemeDefID = ''ruins'', ThemeDefName = ''Ruins''\<rparr>)]"

definition broken_location_dir :: "LocationNode dir_entry list" where
  "broken_location_dir =
     [Directory ''locations'',
      File ''gate.json'' (Parsed (themed_location ''gate'' ''ruins'')),
      File ''cave.json'' (Parsed (themed_location ''cave'' ''missing''))]"

section \<open>Properties\<close>

subsection \<open>Text\<close>

lemma Contains_self: "Contains sub sub"
  by (cases sub) (auto simp: HasPrefix_def)

lemma Contains_suffix: "Contains (xs @ sub) sub"
  by (induction xs) (auto simp: Contains_self)

lemma not_found_text:
  "Contains (world_error_text (CurrentLocationNotFound i)) ''not found''"
  "Contains (world_error_text (TargetLocationNotFound i)) ''not found''"
  using Contains_suffix [of "''current location with ID '' @ quoted i @ '' ''" "''not found''"]
    Contains_suffix [of "''target location with ID '' @ quoted i @ '' ''" "''not found''"]
  by simp_all

subsection \<open>The recent-action log\<close>

lemma add_recent_actions:
  "RecentActions (AddRecentAction sess a) =
     drop (length (RecentActions sess) + 1 - maxRecentActions) (RecentActions sess @ [a])"
  by (simp add: AddRecentAction_def Let_def)

lemma drop_last_window:
  "drop (length (drop (length ys - n) ys) + 1 - n) (drop (length ys - n) ys @ [a])
     = drop (length ys + 1 - n) (ys @ [a])"
  by (cases "length ys \<le> n") (auto simp: Suc_diff_le)

lemma foldl_recent:
  "xs \<noteq> [] \<Longrightarrow> RecentActions (foldl AddRecentAction sess xs) =
     drop (length (RecentActions sess @ xs) - maxRecentActions) (RecentActions sess @ xs)"
proof (induction xs rule: rev_induct)
  case Nil
  then show ?case by simp
next
  case (snoc x xs)
  show ?case
  proof (cases "xs = []")
    case True
    then show ?thesis by (simp add: add_recent_actions)
  next
    case False
    with snoc have IH: "RecentActions (foldl AddRecentAction sess xs) =
      drop (length (RecentActions sess @ xs) - maxRecentActions) (RecentActions sess @ xs)"
      by simp
    show ?thesis
      using drop_last_window [of "RecentActions sess @ xs" maxRecentActions x]
      by (simp add: add_recent_actions IH)
  qed
qed

text \<open>
  Claim C9. A sequence of appends is a left fold of \<open>AddRecentAction\<close> over
  the appended summaries. After at least one append (or from a log that held
  at most 5 entries, as the empty log of a new session does) the log holds at
  most 5 entries: it is the last 5 entries of the old log followed by the
  appended summaries, in their order. After more than 5 appends it is exactly
  the 5 summaries appended last, oldest first.
\<close>

theorem recent_actions_keep_last_five:
  "(xs \<noteq> [] \<or> length (RecentActions sess) \<le> 5 \<longrightarrow>
      length (RecentActions (foldl AddRecentAction sess xs)) \<le> 5) \<and>
   (xs \<noteq> [] \<longrightarrow>
      RecentActions (foldl AddRecentAction sess xs) =
        drop (length (RecentActions sess @ xs) - 5) (RecentActions sess @ xs)) \<and>
   (5 < length xs \<longrightarrow>
      RecentActions (foldl AddRecentAction sess xs) = drop (length xs - 5) xs \<and>
      length (RecentActions (foldl AddRecentAction sess xs)) = 5)"
proof -
  have gen: "xs \<noteq> [] \<Longrightarrow> RecentActions (foldl AddRecentAction sess xs) =
        drop (length (RecentActions sess @ xs) - 5) (RecentActions sess @ xs)"
    using foldl_recent [of xs sess] by (simp add: maxRecentActions_def)
  have bound: "xs \<noteq> [] \<or> length (RecentActions sess) \<le> 5 \<Longrightarrow>
      length (RecentActions (foldl AddRecentAction sess xs)) \<le> 5"
    using gen by (cases "xs = []") auto
  have many: "5 < length xs \<Longrightarrow>
      RecentActions (foldl AddRecentAction sess xs) = drop (length xs - 5) xs"
    using gen by (cases "xs = []") auto
  have "5 < length xs \<Longrightarrow> length (RecentActions (foldl AddRecentAction sess xs)) = 5"
    using many by simp
  with gen bound many show ?thesis by blast
qed

theorem recent_actions_keep_last_five_witness:
  "5 < length [''a'', ''b'', ''c'', ''d'', ''e'', ''f'', ''g''] \<and>
   RecentActions (foldl AddRecentAction (sample_session ''gate'')
       [''a'', ''b'', ''c'', ''d'', ''e'', ''f'', ''g'']) = [''c'', ''d'', ''e'', ''f'', ''g'']"
  using recent_actions_keep_last_five
    [of "[''a'', ''b'', ''c'', ''d'', ''e'', ''f'', ''g'']" "sample_session ''gate''"]
  by simp

subsection \<open>Adjacency\<close>

lemma adjacent_scan_set: "adjacent_scan xs t = (t \<in> set xs)"
  by (induction xs) auto

text \<open>
  Claim C5. \<open>IsAdjacent\<close> fails with a not-found error when the first
  identifier is not loaded, and when the first is loaded and the second is
  not; when both are loaded it returns whether the second identifier occurs
  in the adjacency list stored for the first. The relation is directed: in
  the sample world the market is adjacent to the village and the village is
  not adjacent to the market. The executor follows the stored direction: a
  move to another, non-empty target succeeds, setting the current location,
  exactly when \<open>IsAdjacent\<close> from the current location to the target is
  true.
\<close>

theorem is_adjacent_directed:
  "(map_of (locations ws) fromId = None \<longrightarrow>
      IsAdjacent ws fromId toId = Inl (CurrentLocationNotFound fromId)) \<and>
   (map_of (locations ws) fromId \<noteq> None \<and> map_of (locations ws) toId = None \<longrightarrow>
      IsAdjacent ws fromId toId = Inl (TargetLocationNotFound toId)) \<and>
   (map_of (locations ws) fromId = Some fromLoc \<and> map_of (locations ws) toId \<noteq> None \<longrightarrow>
      IsAdjacent ws fromId toId = Inr (toId \<in> set (AdjacentIDs fromLoc))) \<and>
   IsAdjacent sample_world ''village'' ''market'' = Inr True \<and>
   IsAdjacent sample_world ''market'' ''village'' = Inr False \<and>
   (Data action ''locationId'' = Some (JString toId) \<and> toId \<noteq> [] \<and>
    CurrentLocationID sess \<noteq> toId \<longrightarrow>
      (handleUpdateLocation e action sess = (None, sess\<lparr>CurrentLocationID := toId\<rparr>)) =
        (IsAdjacent (WorldSystem e) (CurrentLocationID sess) toId = Inr True) \<and>
      (fst (handleUpdateLocation e action sess) = None) =
        (IsAdjacent (WorldSystem e) (CurrentLocationID sess) toId = Inr True))"
proof -
  have a: "map_of (locations ws) fromId = None \<Longrightarrow>
      IsAdjacent ws fromId toId = Inl (CurrentLocationNotFound fromId)"
    by (simp add: IsAdjacent_def)
  have b: "map_of (locations ws) fromId \<noteq> None \<and> map_of (locations ws) toId = None \<Longrightarrow>
      IsAdjacent ws fromId toId = Inl (TargetLocationNotFound toId)"
    by (auto simp: IsAdjacent_def)
  have c: "map_of (locations ws) fromId = Some fromLoc \<and> map_of (locations ws) toId \<noteq> None \<Longrightarrow>
      IsAdjacent ws fromId toId = Inr (toId \<in> set (AdjacentIDs fromLoc))"
    by (auto simp: IsAdjacent_def adjacent_scan_set)
  have d: "IsAdjacent sample_world ''village'' ''market'' = Inr True"
    by (simp add: IsAdjacent_def sample_world_def plain_location_def)
  have d': "IsAdjacent sample_world ''market'' ''village'' = Inr False"
    by (simp add: IsAdjacent_def sample_world_def plain_location_def)
  have f: "Data action ''locationId'' = Some (JString toId) \<and> toId \<noteq> [] \<and>
    CurrentLocationID sess \<noteq> toId \<Longrightarrow>
      (handleUpdateLocation e action sess = (None, sess\<lparr>CurrentLocationID := toId\<rparr>)) =
        (IsAdjacent (WorldSystem e) (CurrentLocationID sess) toId = Inr True) \<and>
      (fst (handleUpdateLocation e action sess) = None) =
        (IsAdjacent (WorldSystem e) (CurrentLocationID sess) toId = Inr True)"
    by (auto simp: handleUpdateLocation_def Let_def split: sum.splits)
  from a b c d d' f show ?thesis by blast
qed

theorem is_adjacent_directed_witness:
  "map_of (locations sample_world) ''village'' = Some (plain_location ''village'' [''gate'', ''market'']) \<and>
   map_of (locations sample_world) ''market'' \<noteq> None \<and>
   map_of (locations sample_world) ''nowhere'' = None \<and>
   IsAdjacent sample_world ''village'' ''market'' = Inr True \<and>
   IsAdjacent sample_world ''market'' ''village'' = Inr False \<and>
   IsAdjacent sample_world ''nowhere'' ''village'' = Inl (CurrentLocationNotFound ''nowhere'') \<and>
   IsAdjacent sample_world ''village'' ''nowhere'' = Inl (TargetLocationNotFound ''nowhere'') \<and>
   handleUpdateLocation sample_executor (move_to ''market'') (sample_session ''village'')
     = (None, (sample_session ''village'')\<lparr>CurrentLocationID := ''market''\<rparr>) \<and>
   fst (handleUpdateLocation sample_executor (move_to ''village'') (sample_session ''market''))
     \<noteq> None"
  using is_adjacent_directed [where ws = sample_world and fromId = "''village''"
        and toId = "''market''" and fromLoc = "plain_location ''village'' [''gate'', ''market'']"
        and action = "move_to ''market''" and sess = "sample_session ''village''"
        and e = sample_executor]
    is_adjacent_directed [where ws = sample_world and fromId = "''market''"
        and toId = "''village''" and fromLoc = "plain_location ''market'' []"
        and action = "move_to ''village''" and sess = "sample_session ''market''"
        and e = sample_executor]
    is_adjacent_directed [where ws = sample_world and fromId = "''nowhere''"
        and toId = "''village''"]
    is_adjacent_directed [where ws = sample_world and fromId = "''village''"
        and toId = "''nowhere''"]
  by (simp add: sample_world_def sample_executor_def sample_session_def move_to_def
        plain_location_def)

subsection \<open>The updateLocation handler\<close>

text \<open>
  Claim C6. An \<^verbatim>\<open>updateLocation\<close> whose \<^verbatim>\<open>locationId\<close> is a non-empty
  string equal to the session's current location succeeds and leaves the
  session as it is, whatever the world system holds (no adjacency is
  looked up, so no adjacency or not-found error can arise); run through
  \<open>ExecuteActions\<close> it yields no error and the same current location.
\<close>

theorem update_to_current_location_is_noop:
  "Data action ''locationId'' = Some (JString target) \<and> target \<noteq> [] \<and>
   CurrentLocationID sess = target \<longrightarrow>
     handleUpdateLocation e action sess = (None, sess) \<and>
     (Type action = UpdateLocation \<longrightarrow>
        dispatch_action e action sess = (None, sess) \<and>
        fst (ExecuteActions e [action] (Some sess)) = [] \<and>
        map_option CurrentLocationID (snd (ExecuteActions e [action] (Some sess)))
          = Some (CurrentLocationID sess))"
  by (simp add: handleUpdateLocation_def dispatch_action_def ExecuteActions_def
        AddRecentAction_def Let_def)

theorem update_to_current_location_is_noop_witness:
  "Data (move_to ''nowhere'') ''locationId'' = Some (JString ''nowhere'') \<and>
   CurrentLocationID (sample_session ''nowhere'') = ''nowhere'' \<and>
   map_of (locations sample_world) ''nowhere'' = None \<and>
   handleUpdateLocation sample_executor (move_to ''nowhere'') (sample_session ''nowhere'')
     = (None, sample_session ''nowhere'') \<and>
   fst (ExecuteActions sample_executor [move_to ''nowhere''] (Some (sample_session ''nowhere'')))
     = []"
  using update_to_current_location_is_noop [where action = "move_to ''nowhere''"
      and target = "''nowhere''" and sess = "sample_session ''nowhere''"
      and e = sample_executor]
  by (simp add: move_to_def sample_session_def sample_world_def)

text \<open>
  Claim C2. The outcomes of the handler on an action whose target is not the
  current location. A missing \<^verbatim>\<open>locationId\<close>, one that is not a string
  and the empty string each give their own invalid-data error; a current
  or a target location that is not loaded gives the "location does not exist"
  error; two loaded locations with the target not in the current one's
  adjacency list give the "not adjacent" error; in all these cases the
  session is returned unchanged. When the target is adjacent, there is no
  error and the session differs only in its current location, now the target.
\<close>

theorem update_location_outcomes:
  "(Data action ''locationId'' = None \<longrightarrow>
      handleUpdateLocation e action sess = (Some MissingLocationId, sess)) \<and>
   (Data action ''locationId'' = Some v \<and> (\<forall>t. v \<noteq> JString t) \<longrightarrow>
      handleUpdateLocation e action sess = (Some LocationIdNotString, sess)) \<and>
   (Data action ''locationId'' = Some (JString []) \<longrightarrow>
      handleUpdateLocation e action sess = (Some LocationIdEmpty, sess)) \<and>
   (Data action ''locationId'' = Some (JString target) \<and> target \<noteq> [] \<and>
    CurrentLocationID sess \<noteq> target \<longrightarrow>
      (map_of (locations (WorldSystem e)) (CurrentLocationID sess) = None \<longrightarrow>
         handleUpdateLocation e action sess =
           (Some (LocationDoesNotExist (CurrentLocationNotFound (CurrentLocationID sess))),
            sess)) \<and>
      (map_of (locations (WorldSystem e)) (CurrentLocationID sess) = Some currentLoc \<longrightarrow>
         (map_of (locations (WorldSystem e)) target = None \<longrightarrow>
            handleUpdateLocation e action sess =
              (Some (LocationDoesNotExist (TargetLocationNotFound target)), sess)) \<and>
         (map_of (locations (WorldSystem e)) target \<noteq> None \<and>
          target \<notin> set (AdjacentIDs currentLoc) \<longrightarrow>
            handleUpdateLocation e action sess =
              (Some (NotAdjacent target (CurrentLocationID sess)), sess)) \<and>
         (map_of (locations (WorldSystem e)) target \<noteq> None \<and>
          target \<in> set (AdjacentIDs currentLoc) \<longrightarrow>
            handleUpdateLocation e action sess =
              (None, sess\<lparr>CurrentLocationID := target\<rparr>))))"
proof -
  have a: "Data action ''locationId'' = None \<Longrightarrow>
      handleUpdateLocation e action sess = (Some MissingLocationId, sess)"
    by (simp add: handleUpdateLocation_def)
  have b: "Data action ''locationId'' = Some v \<and> (\<forall>t. v \<noteq> JString t) \<Longrightarrow>
      handleUpdateLocation e action sess = (Some LocationIdNotString, sess)"
    by (cases v) (auto simp: handleUpdateLocation_def)
  have c: "Data action ''locationId'' = Some (JString []) \<Longrightarrow>
      handleUpdateLocation e action sess = (Some LocationIdEmpty, sess)"
    by (simp add: handleUpdateLocation_def)
  have d: "Data action ''locationId'' = Some (JString target) \<and> target \<noteq> [] \<and>
    CurrentLocationID sess \<noteq> target \<Longrightarrow>
      handleUpdateLocation e action sess =
        (case IsAdjacent (WorldSystem e) (CurrentLocationID sess) target of
           Inl err \<Rightarrow>
             if Contains (world_error_text err) ''not found''
             then (Some (LocationDoesNotExist err), sess)
             else (Some (AdjacencyCheckError err), sess)
         | Inr isAdj \<Rightarrow>
             if \<not> isAdj then (Some (NotAdjacent target (CurrentLocationID sess)), sess)
             else (None, sess\<lparr>CurrentLocationID := target\<rparr>))"
    by (simp add: handleUpdateLocation_def Let_def)
  have d1: "Data action ''locationId'' = Some (JString target) \<and> target \<noteq> [] \<and>
    CurrentLocationID sess \<noteq> target \<Longrightarrow>
    map_of (locations (WorldSystem e)) (CurrentLocationID sess) = None \<Longrightarrow>
         handleUpdateLocation e action sess =
           (Some (LocationDoesNotExist (CurrentLocationNotFound (CurrentLocationID sess))),
            sess)"
    using not_found_text(1) [of "CurrentLocationID sess"]
    by (simp add: d IsAdjacent_def del: world_error_text.simps)
  have d2: "Data action ''locationId'' = Some (JString target) \<and> target \<noteq> [] \<and>
    CurrentLocationID sess \<noteq> target \<Longrightarrow>
    map_of (locations (WorldSystem e)) (CurrentLocationID sess) = Some currentLoc \<Longrightarrow>
    map_of (locations (WorldSystem e)) target = None \<Longrightarrow>
            handleUpdateLocation e action sess =
              (Some (LocationDoesNotExist (TargetLocationNotFound target)), sess)"
    using not_found_text(2) [of target]
    by (simp add: d IsAdjacent_def del: world_error_text.simps)
  have d3: "Data action ''locationId'' = Some (JString target) \<and> target \<noteq> [] \<and>
    CurrentLocationID sess \<noteq> target \<Longrightarrow>
    map_of (locations (WorldSystem e)) (CurrentLocationID sess) = Some currentLoc \<Longrightarrow>
    map_of (locations (WorldSystem e)) target \<noteq> None \<Longrightarrow>
    handleUpdateLocation e action sess =
      (if target \<in> set (AdjacentIDs currentLoc)
       then (None, sess\<lparr>CurrentLocationID := target\<rparr>)
       else (Some (NotAdjacent target (CurrentLocationID sess)), sess))"
    by (auto simp: d IsAdjacent_def adjacent_scan_set)
  from a b c d1 d2 d3 show ?thesis by simp
qed

theorem update_location_outcomes_witness:
  "handleUpdateLocation sample_executor add_item (sample_session ''gate'')
     = (Some MissingLocationId, sample_session ''gate'') \<and>
   handleUpdateLocation sample_executor
       \<lparr>Type = UpdateLocation, Data = [''locationId'' \<mapsto> JNumber 7]\<rparr> (sample_session ''gate'')
     = (Some LocationIdNotString, sample_session ''gate'') \<and>
   handleUpdateLocation sample_executor (move_to []) (sample_session ''gate'')
     = (Some LocationIdEmpty, sample_session ''gate'') \<and>
   handleUpdateLocation sample_executor (move_to ''gate'') (sample_session ''nowhere'')
     = (Some (LocationDoesNotExist (CurrentLocationNotFound ''nowhere'')),
        sample_session ''nowhere'') \<and>
   handleUpdateLocation sample_executor (move_to ''nowhere'') (sample_session ''gate'')
     = (Some (LocationDoesNotExist (TargetLocationNotFound ''nowhere'')),
        sample_session ''gate'') \<and>
   handleUpdateLocation sample_executor (move_to ''market'') (sample_session ''gate'')
     = (Some (NotAdjacent ''market'' ''gate''), sample_session ''gate'') \<and>
   handleUpdateLocation sample_executor (move_to ''village'') (sample_session ''gate'')
     = (None, (sample_session ''gate'')\<lparr>CurrentLocationID := ''village''\<rparr>)"
  using update_location_outcomes [where action = add_item and sess = "sample_session ''gate''"
      and e = sample_executor]
    update_location_outcomes [where action = "\<lparr>Type = UpdateLocation,
      Data = [''locationId'' \<mapsto> JNumber 7]\<rparr>" and v = "JNumber 7"
      and sess = "sample_session ''gate''" and e = sample_executor]
    update_location_outcomes [where action = "move_to []" and sess = "sample_session ''gate''"
      and e = sample_executor]
    update_location_outcomes [where action = "move_to ''gate''" and target = "''gate''"
      and sess = "sample_session ''nowhere''" and e = sample_executor]
    update_location_outcomes [where action = "move_to ''nowhere''" and target = "''nowhere''"
      and sess = "sample_session ''gate''" and e = sample_executor
      and currentLoc = "plain_location ''gate'' [''village'']"]
    update_location_outcomes [where action = "move_to ''market''" and target = "''market''"
      and sess = "sample_session ''gate''" and e = sample_executor
      and currentLoc = "plain_location ''gate'' [''village'']"]
    update_location_outcomes [where action = "move_to ''village''" and target = "''village''"
      and sess = "sample_session ''gate''" and e = sample_executor
      and currentLoc = "plain_location ''gate'' [''village'']"]
  by (simp add: sample_world_def sample_executor_def sample_session_def move_to_def
        add_item_def plain_location_def)

subsection \<open>The executor\<close>

lemma execute_loop_outcomes:
  "execute_loop e actions sess errs =
     (errs @ map the (filter (\<lambda>slot. slot \<noteq> None) (sequential_outcomes e actions sess)),
      session_after e actions sess)"
  by (induction actions arbitrary: sess errs) (auto split: prod.splits option.splits)

lemma length_sequential_outcomes: "length (sequential_outcomes e actions sess) = length actions"
  by (induction actions arbitrary: sess) (auto split: prod.splits option.splits)

text \<open>
  Claim C1, as the code has it. \<open>ExecuteActions\<close> on a session returns the
  wrapped errors of the failing actions only, in input order: the per-action
  outcome slots with the error-free ones dropped. So the list has one entry
  per failed action, at most as many as there are actions. The actions run
  in sequence, each on the session left by the earlier ones, and the session
  returned is the one the last action left.
\<close>

theorem execute_actions_returns_errors_only:
  "ExecuteActions e actions (Some sess) =
     (map the (filter (\<lambda>slot. slot \<noteq> None) (sequential_outcomes e actions sess)),
      Some (session_after e actions sess)) \<and>
   length (sequential_outcomes e actions sess) = length actions \<and>
   length (fst (ExecuteActions e actions (Some sess))) =
     length (filter (\<lambda>slot. slot \<noteq> None) (sequential_outcomes e actions sess)) \<and>
   length (fst (ExecuteActions e actions (Some sess))) \<le> length actions"
proof -
  have "length (filter (\<lambda>slot. slot \<noteq> None) (sequential_outcomes e actions sess))
          \<le> length (sequential_outcomes e actions sess)"
    by (rule length_filter_le)
  then show ?thesis
    by (simp add: ExecuteActions_def execute_loop_outcomes length_sequential_outcomes)
qed

theorem execute_actions_returns_errors_only_witness:
  "fst (ExecuteActions sample_executor [move_to ''village'', move_to ''market'']
          (Some (sample_session ''gate''))) = [] \<and>
   map_option CurrentLocationID
     (snd (ExecuteActions sample_executor [move_to ''village'', move_to ''market'']
          (Some (sample_session ''gate'')))) = Some ''market'' \<and>
   length (fst (ExecuteActions sample_executor [move_to ''market'']
          (Some (sample_session ''gate'')))) = 1"
  using execute_actions_returns_errors_only [where e = sample_executor
      and actions = "[move_to ''village'', move_to ''market'']"
      and sess = "sample_session ''gate''"]
    execute_actions_returns_errors_only [where e = sample_executor
      and actions = "[move_to ''market'']" and sess = "sample_session ''gate''"]
  by (simp add: dispatch_action_def handleUpdateLocation_def IsAdjacent_def
        sample_executor_def sample_world_def sample_session_def move_to_def
        plain_location_def UpdateLocation_def
        AddRecentAction_def maxRecentActions_def Let_def)

text \<open>
  Against claim C1 as stated: from the gate, a move to the market fails, a
  move to the village succeeds and an \<^verbatim>\<open>addItem\<close> fails; three actions
  give two entries, not three slots, and the session ends in the village.
\<close>

theorem execute_actions_counterexample:
  "length (fst (ExecuteActions sample_executor
      [move_to ''market'', move_to ''village'', add_item] (Some (sample_session ''gate'')))) = 2 \<and>
   length [move_to ''market'', move_to ''village'', add_item] = 3 \<and>
   map_option CurrentLocationID (snd (ExecuteActions sample_executor
      [move_to ''market'', move_to ''village'', add_item] (Some (sample_session ''gate''))))
     = Some ''village''"
  by (simp add: ExecuteActions_def dispatch_action_def handleUpdateLocation_def IsAdjacent_def
        sample_executor_def sample_world_def sample_session_def move_to_def add_item_def
        plain_location_def UpdateLocation_def AddItem_def RemoveItem_def ApplyEffect_def
        AddRecentAction_def maxRecentActions_def Let_def)

subsection \<open>Creating a session\<close>

lemma show_int_1000: "show_int 1000 = ''1000''"
  by (simp add: show_int_def show_nat.simps digit_char_def)

text \<open>
  Claim C10, as the code has it. For a character with a non-empty identifier
  and any start location, \<open>CreateNewSession\<close> consults no world system. When
  the identifier it builds from the character's identifier and the clock is
  not yet in the store, it succeeds and stores under that identifier a
  session whose current location is the given start location; when that
  identifier is already in the store, it fails and leaves the store as it is.
\<close>

theorem create_new_session_stores_start_location:
  "CharID p \<noteq> [] \<longrightarrow>
     (sessions sm (''session_'' @ CharID p @ ''_'' @ show_int nowID) = None \<longrightarrow>
        CreateNewSession sm (Some p) startLocationID nowID nowCreated nowActive =
          (Inr \<lparr>SessionID = ''session_'' @ CharID p @ ''_'' @ show_int nowID, Player = p,
                CurrentLocationID = startLocationID, CreatedAt = nowCreated,
                LastActive = nowActive, RecentActions = []\<rparr>,
           sm\<lparr>sessions := (sessions sm)(''session_'' @ CharID p @ ''_'' @ show_int nowID \<mapsto>
               \<lparr>SessionID = ''session_'' @ CharID p @ ''_'' @ show_int nowID, Player = p,
                CurrentLocationID = startLocationID, CreatedAt = nowCreated,
                LastActive = nowActive, RecentActions = []\<rparr>)\<rparr>)) \<and>
     (sessions sm (''session_'' @ CharID p @ ''_'' @ show_int nowID) \<noteq> None \<longrightarrow>
        CreateNewSession sm (Some p) startLocationID nowID nowCreated nowActive =
          (Inl SessionIDCollision, sm))"
  by (simp add: CreateNewSession_def Let_def)

theorem create_new_session_stores_start_location_witness:
  "CharID (NewCharacter ''p1'' ''Ash'' [] []) \<noteq> [] \<and>
   GetLocation sample_world ''nowhere'' = Inl (LocationNotFound ''nowhere'') \<and>
   map_sum id CurrentLocationID
     (fst (CreateNewSession NewInMemorySessionManager (Some (NewCharacter ''p1'' ''Ash'' [] []))
        ''nowhere'' 1000 1001 1002)) = Inr ''nowhere'' \<and>
   map_option CurrentLocationID
     (sessions (snd (CreateNewSession NewInMemorySessionManager
        (Some (NewCharacter ''p1'' ''Ash'' [] [])) ''nowhere'' 1000 1001 1002))
        ''session_p1_1000'') = Some ''nowhere''"
  using create_new_session_stores_start_location [where p = "NewCharacter ''p1'' ''Ash'' [] []"
      and sm = NewInMemorySessionManager and startLocationID = "''nowhere''"
      and nowID = 1000 and nowCreated = 1001 and nowActive = 1002]
  by (simp add: NewCharacter_def NewInMemorySessionManager_def GetLocation_def
        sample_world_def show_int_1000)

text \<open>
  Against claim C10 as stated: the same character creating a second session
  at the same clock reading gets the collision error.
\<close>

theorem create_new_session_counterexample:
  "CharID (NewCharacter ''p1'' ''Ash'' [] []) \<noteq> [] \<and>
   map_sum id SessionID
     (fst (CreateNewSession NewInMemorySessionManager
        (Some (NewCharacter ''p1'' ''Ash'' [] [])) ''gate'' 1000 1000 1000))
     = Inr ''session_p1_1000'' \<and>
   fst (CreateNewSession
          (snd (CreateNewSession NewInMemorySessionManager
             (Some (NewCharacter ''p1'' ''Ash'' [] [])) ''gate'' 1000 1000 1000))
          (Some (NewCharacter ''p1'' ''Ash'' [] [])) ''village'' 1000 1000 1000)
     = Inl SessionIDCollision"
  by (simp add: CreateNewSession_def NewCharacter_def NewInMemorySessionManager_def
        Let_def show_int_1000)

subsection \<open>One turn of the narrative engine\<close>

lemma process_fetch_failed:
  "sessions sm sessionID = None \<Longrightarrow>
   ProcessPlayerInput ne sm sessionID playerInput nowGet nowContext nowUpdate =
     (Inl (RetrieveSessionFailed sessionID (SessionNotFound sessionID)), sm)"
  by (simp add: ProcessPlayerInput_def GetSession_def)

lemma process_fetched:
  "sessions sm sessionID = Some sess \<Longrightarrow>
   ProcessPlayerInput ne sm sessionID playerInput nowGet nowContext nowUpdate =
     (let currentSession =
            AddRecentAction (sess\<lparr>LastActive := nowGet\<rparr>) (''Player: '' @ playerInput);
          sm2 = sm\<lparr>sessions := (sessions sm)(sessionID \<mapsto> currentSession)\<rparr>
      in (case buildPromptContext ne currentSession nowContext of
            Inl err \<Rightarrow> (Inl (BuildPromptContextFailed sessionID err), sm2)
          | Inr promptData \<Rightarrow>
              (case LLMAdapter ne (SystemPrompt ne)
                      (promptData\<lparr>PlayerInput := playerInput\<rparr>) of
                 Inl err \<Rightarrow> (Inl (LLMAdapterFailed sessionID err), sm2)
               | Inr llmResponse \<Rightarrow>
                   (case execute_response ne llmResponse currentSession of
                      (finalResponse, executed) \<Rightarrow>
                        (let sm3 = written_through sm2 sessionID executed
                         in (case UpdateSession sm3 executed nowUpdate of
                               (updateErr, updated) \<Rightarrow>
                                 (Inr finalResponse,
                                  written_through sm3 sessionID updated)))))))"
  by (simp add: ProcessPlayerInput_def GetSession_def written_through_def Let_def
        split: sum.splits prod.splits)

lemma execute_response_failed:
  "Actions llmResponse \<noteq> [] \<Longrightarrow>
   fst (ExecuteActions (ActionExecutor ne) (Actions llmResponse) (Some cur)) \<noteq> [] \<Longrightarrow>
   fst (execute_response ne llmResponse cur) =
     llmResponse\<lparr>Narrative :=
       errorNarrative (length (fst (ExecuteActions (ActionExecutor ne) (Actions llmResponse)
          (Some cur)))) @ Narrative llmResponse\<rparr>"
  by (cases "ExecuteActions (ActionExecutor ne) (Actions llmResponse) (Some cur)")
    (simp add: execute_response_def)

lemma process_generated:
  "sessions sm sessionID = Some sess \<Longrightarrow>
   buildPromptContext ne
     (AddRecentAction (sess\<lparr>LastActive := nowGet\<rparr>) (''Player: '' @ playerInput))
     nowContext = Inr promptData \<Longrightarrow>
   LLMAdapter ne (SystemPrompt ne) (promptData\<lparr>PlayerInput := playerInput\<rparr>) = Inr llmResponse
   \<Longrightarrow>
   fst (ProcessPlayerInput ne sm sessionID playerInput nowGet nowContext nowUpdate) =
     Inr (fst (execute_response ne llmResponse
       (AddRecentAction (sess\<lparr>LastActive := nowGet\<rparr>) (''Player: '' @ playerInput))))"
  by (simp add: process_fetched Let_def split: prod.splits)

lemma sample_fetched:
  "AddRecentAction ((sample_session ''gate'')\<lparr>LastActive := 2\<rparr>) (''Player: '' @ ''go'') =
     (sample_session ''gate'')\<lparr>LastActive := 2, RecentActions := [''Player: go'']\<rparr>"
  by (simp add: AddRecentAction_def maxRecentActions_def sample_session_def)

lemma sample_context:
  "buildPromptContext (sample_engine adapter)
     ((sample_session loc)\<lparr>LastActive := t, RecentActions := entries\<rparr>) now =
   (case GetLocation sample_world loc of
      Inl err \<Rightarrow> Inl (CurrentLocationDetailsFailed loc err)
    | Inr currentLoc \<Rightarrow>
        Inr \<lparr>PlayerContext = \<lparr>PlayerName = ''Ash'', PlayerClass = [], PlayerOrigin = [],
                               PlayerLevel = 1\<rparr>,
             LocationContext =
               \<lparr>CurrentLocationName = name_with_id currentLoc,
                CurrentLocationDesc = Description currentLoc,
                AdjacentLocationIDs =
                  map LocID (adjacent_collect sample_world (AdjacentIDs currentLoc)),
                AdjacentLocationNames =
                  map name_with_id (adjacent_collect sample_world (AdjacentIDs currentLoc)),
                CurrentThemeID = ThemeID currentLoc\<rparr>,
             SessionContext = \<lparr>TimeElapsed = now - 1, ContextRecentActions = entries\<rparr>,
             PlayerInput = []\<rparr>)"
  by (simp add: buildPromptContext_def sample_engine_def sample_session_def NewCharacter_def
        GetAdjacentLocations_def Let_def split: sum.splits)

lemma sample_gate: "GetLocation sample_world ''gate'' = Inr (plain_location ''gate'' [''village''])"
  by (simp add: GetLocation_def sample_world_def)

lemma sample_move_nowhere:
  "handleUpdateLocation sample_executor (move_to ''nowhere'')
     ((sample_session ''gate'')\<lparr>LastActive := t, RecentActions := entries\<rparr>) =
   (Some (LocationDoesNotExist (TargetLocationNotFound ''nowhere'')),
    (sample_session ''gate'')\<lparr>LastActive := t, RecentActions := entries\<rparr>)"
  by (simp add: handleUpdateLocation_def move_to_def sample_session_def sample_executor_def
        sample_world_def IsAdjacent_def quoted_def HasPrefix_def)

lemma sample_execute_nowhere:
  "fst (ExecuteActions sample_executor [move_to ''nowhere'']
     (Some ((sample_session ''gate'')\<lparr>LastActive := t, RecentActions := entries\<rparr>))) =
   [FailedToExecute UpdateLocation (Data (move_to ''nowhere''))
      (LocationDoesNotExist (TargetLocationNotFound ''nowhere''))]"
  by (simp add: ExecuteActions_def dispatch_action_def sample_move_nowhere)
    (simp add: move_to_def)

lemma show_int_1: "show_int 1 = ''1''"
  by (simp add: show_int_def show_nat.simps digit_char_def)

lemma sample_failed_turn:
  "ProcessPlayerInput (sample_engine failing_adapter) sample_manager ''session_p1_1''
     ''look'' 2 3 4 =
   (Inl (LLMAdapterFailed ''session_p1_1'' (GenerationFailed ''transport error'')),
    sample_manager\<lparr>sessions := (sessions sample_manager)(''session_p1_1'' \<mapsto>
      (sample_session ''gate'')\<lparr>LastActive := 2, RecentActions := [''Player: look'']\<rparr>)\<rparr>)"
proof -
  have 1: "sessions sample_manager ''session_p1_1'' = Some (sample_session ''gate'')"
    by (simp add: sample_manager_def)
  have 2: "AddRecentAction ((sample_session ''gate'')\<lparr>LastActive := 2\<rparr>)
      (''Player: '' @ ''look'') =
     (sample_session ''gate'')\<lparr>LastActive := 2, RecentActions := [''Player: look'']\<rparr>"
    by (simp add: AddRecentAction_def maxRecentActions_def sample_session_def)
  have 3: "LLMAdapter (sample_engine failing_adapter) sp pd =
      Inl (GenerationFailed ''transport error'')" for sp pd
    by (simp add: sample_engine_def failing_adapter_def)
  show ?thesis
    by (simp only: process_fetched [OF 1] 2 Let_def sample_context sample_gate 3
          sum.case)
qed

text \<open>
  Claim C8, as the code has it. When the session exists, the prompt context
  is built and the text generator fails, \<open>ProcessPlayerInput\<close> returns
  the adapter's error and no response. The session then differs from the one
  before the turn in two fields only: the last-active timestamp, refreshed
  by the fetch, and the recent-action log, to which the player's input was
  appended. Its current location is as before.
\<close>

theorem generator_failure_aborts_turn:
  "sessions sm sessionID = Some sess \<and>
   buildPromptContext ne
     (AddRecentAction (sess\<lparr>LastActive := nowGet\<rparr>) (''Player: '' @ playerInput))
     nowContext = Inr promptData \<and>
   LLMAdapter ne (SystemPrompt ne) (promptData\<lparr>PlayerInput := playerInput\<rparr>) = Inl err \<longrightarrow>
     ProcessPlayerInput ne sm sessionID playerInput nowGet nowContext nowUpdate =
       (Inl (LLMAdapterFailed sessionID err),
        sm\<lparr>sessions := (sessions sm)(sessionID \<mapsto>
             sess\<lparr>LastActive := nowGet,
                  RecentActions :=
                    RecentActions (AddRecentAction sess (''Player: '' @ playerInput))\<rparr>)\<rparr>)"
  by (simp add: process_fetched Let_def AddRecentAction_def)

theorem generator_failure_aborts_turn_witness:
  "fst (ProcessPlayerInput (sample_engine failing_adapter) sample_manager ''session_p1_1''
     ''look'' 2 3 4) =
     Inl (LLMAdapterFailed ''session_p1_1'' (GenerationFailed ''transport error'')) \<and>
   map_option CurrentLocationID
     (sessions (snd (ProcessPlayerInput (sample_engine failing_adapter) sample_manager
        ''session_p1_1'' ''look'' 2 3 4)) ''session_p1_1'') = Some ''gate'' \<and>
   map_option RecentActions
     (sessions (snd (ProcessPlayerInput (sample_engine failing_adapter) sample_manager
        ''session_p1_1'' ''look'' 2 3 4)) ''session_p1_1'') = Some [''Player: look'']"
proof -
  let ?cur = "(sample_session ''gate'')\<lparr>LastActive := 2, RecentActions := [''Player: look'']\<rparr>"
  have 1: "sessions sample_manager ''session_p1_1'' = Some (sample_session ''gate'')"
    by (simp add: sample_manager_def)
  have 2: "AddRecentAction ((sample_session ''gate'')\<lparr>LastActive := 2\<rparr>)
      ''Player: look'' = ?cur"
    by (simp add: AddRecentAction_def maxRecentActions_def sample_session_def)
  obtain pd where 3: "buildPromptContext (sample_engine failing_adapter) ?cur 3 = Inr pd"
    by (simp add: sample_context sample_gate)
  have 4: "LLMAdapter (sample_engine failing_adapter) (SystemPrompt (sample_engine failing_adapter))
      (pd\<lparr>PlayerInput := ''look''\<rparr>) = Inl (GenerationFailed ''transport error'')"
    by (simp add: sample_engine_def failing_adapter_def)
  have 5: "RecentActions (AddRecentAction (sample_session ''gate'') ''Player: look'')
      = [''Player: look'']"
    by (simp add: AddRecentAction_def maxRecentActions_def sample_session_def)
  have 6: "CurrentLocationID (sample_session ''gate'') = ''gate''"
    by (simp add: sample_session_def)
  show ?thesis
    using generator_failure_aborts_turn [where sm = sample_manager
      and sessionID = "''session_p1_1''" and sess = "sample_session ''gate''"
      and ne = "sample_engine failing_adapter" and nowGet = 2 and playerInput = "''look''"
      and nowContext = 3 and nowUpdate = 4 and promptData = pd
      and err = "GenerationFailed ''transport error''"] 1 3 4
    by (simp add: 2 5 6)
qed

text \<open>
  Against claim C8 as stated: in the failed turn of the sample engine the
  session's last-active timestamp goes from 1 to 2, so the appended log
  entry is not the only change.
\<close>

theorem generator_failure_counterexample:
  "fst (ProcessPlayerInput (sample_engine failing_adapter) sample_manager ''session_p1_1''
     ''look'' 2 3 4) =
     Inl (LLMAdapterFailed ''session_p1_1'' (GenerationFailed ''transport error'')) \<and>
   map_option LastActive (sessions sample_manager ''session_p1_1'') = Some 1 \<and>
   map_option LastActive
     (sessions (snd (ProcessPlayerInput (sample_engine failing_adapter) sample_manager
        ''session_p1_1'' ''look'' 2 3 4)) ''session_p1_1'') = Some 2 \<and>
   sessions (snd (ProcessPlayerInput (sample_engine failing_adapter) sample_manager
        ''session_p1_1'' ''look'' 2 3 4)) ''session_p1_1'' \<noteq>
     Some (AddRecentAction (sample_session ''gate'') ''Player: look'')"
  by (simp add: sample_failed_turn)
    (simp add: sample_manager_def sample_session_def AddRecentAction_def maxRecentActions_def)

text \<open>
  Claim C4, as the code has it. A turn that returns an error was aborted at
  or before the generator call. If the session was not found, the session
  manager is unchanged. Otherwise the turn has changed that one session,
  and in it only the last-active timestamp (set by the fetch) and the
  recent-action log (the player's input appended); its identifier,
  character, current location and creation timestamp, and every other
  session, are as before.
\<close>

theorem aborted_turn_changes_log_and_timestamp_only:
  "fst (ProcessPlayerInput ne sm sessionID playerInput nowGet nowContext nowUpdate) = Inl err \<longrightarrow>
     (sessions sm sessionID = None \<longrightarrow>
        snd (ProcessPlayerInput ne sm sessionID playerInput nowGet nowContext nowUpdate) = sm) \<and>
     (sessions sm sessionID = Some sess \<longrightarrow>
        snd (ProcessPlayerInput ne sm sessionID playerInput nowGet nowContext nowUpdate) =
          sm\<lparr>sessions := (sessions sm)(sessionID \<mapsto>
             sess\<lparr>LastActive := nowGet,
                  RecentActions :=
                    RecentActions (AddRecentAction sess (''Player: '' @ playerInput))\<rparr>)\<rparr>)"
proof -
  have a: "sessions sm sessionID = None \<Longrightarrow>
        snd (ProcessPlayerInput ne sm sessionID playerInput nowGet nowContext nowUpdate) = sm"
    by (simp add: process_fetch_failed)
  have cur: "AddRecentAction (sess\<lparr>LastActive := nowGet\<rparr>) a =
      sess\<lparr>LastActive := nowGet, RecentActions := RecentActions (AddRecentAction sess a)\<rparr>"
    for a
    by (simp add: AddRecentAction_def Let_def)
  have b: "fst (ProcessPlayerInput ne sm sessionID playerInput nowGet nowContext nowUpdate) = Inl err
      \<Longrightarrow> sessions sm sessionID = Some sess \<Longrightarrow>
        snd (ProcessPlayerInput ne sm sessionID playerInput nowGet nowContext nowUpdate) =
          sm\<lparr>sessions := (sessions sm)(sessionID \<mapsto>
             sess\<lparr>LastActive := nowGet,
                  RecentActions :=
                    RecentActions (AddRecentAction sess (''Player: '' @ playerInput))\<rparr>)\<rparr>"
    by (auto simp: process_fetched Let_def cur split: sum.splits prod.splits)
  from a b show ?thesis by blast
qed

theorem aborted_turn_changes_log_and_timestamp_only_witness:
  "fst (ProcessPlayerInput (sample_engine failing_adapter) sample_manager ''session_p1_1''
     ''look'' 2 3 4) =
     Inl (LLMAdapterFailed ''session_p1_1'' (GenerationFailed ''transport error'')) \<and>
   sessions sample_manager ''session_p1_1'' = Some (sample_session ''gate'') \<and>
   snd (ProcessPlayerInput (sample_engine failing_adapter) sample_manager ''session_p1_1''
     ''look'' 2 3 4) =
     sample_manager\<lparr>sessions := (sessions sample_manager)(''session_p1_1'' \<mapsto>
       (sample_session ''gate'')\<lparr>LastActive := 2,
          RecentActions :=
            RecentActions (AddRecentAction (sample_session ''gate'') (''Player: '' @ ''look''))\<rparr>)\<rparr>"
proof -
  have 1: "sessions sample_manager ''session_p1_1'' = Some (sample_session ''gate'')"
    by (simp add: sample_manager_def)
  have 2: "fst (ProcessPlayerInput (sample_engine failing_adapter) sample_manager
      ''session_p1_1'' ''look'' 2 3 4) =
     Inl (LLMAdapterFailed ''session_p1_1'' (GenerationFailed ''transport error''))"
    by (simp add: sample_failed_turn)
  show ?thesis
    using aborted_turn_changes_log_and_timestamp_only [where sm = sample_manager
      and sessionID = "''session_p1_1''" and sess = "sample_session ''gate''"
      and ne = "sample_engine failing_adapter" and nowGet = 2 and playerInput = "''look''"
      and nowContext = 3 and nowUpdate = 4
      and err = "LLMAdapterFailed ''session_p1_1'' (GenerationFailed ''transport error'')"]
      1 2
    by simp
qed

text \<open>
  Against claim C4 as stated: in the failed turn of the sample engine the
  recent-action log was empty before the turn and holds the player's input
  after it, though action execution never began.
\<close>

theorem aborted_turn_counterexample:
  "fst (ProcessPlayerInput (sample_engine failing_adapter) sample_manager ''session_p1_1''
     ''look'' 2 3 4) =
     Inl (LLMAdapterFailed ''session_p1_1'' (GenerationFailed ''transport error'')) \<and>
   map_option RecentActions (sessions sample_manager ''session_p1_1'') = Some [] \<and>
   map_option RecentActions
     (sessions (snd (ProcessPlayerInput (sample_engine failing_adapter) sample_manager
        ''session_p1_1'' ''look'' 2 3 4)) ''session_p1_1'') = Some [''Player: look''] \<and>
   sessions (snd (ProcessPlayerInput (sample_engine failing_adapter) sample_manager
        ''session_p1_1'' ''look'' 2 3 4)) ''session_p1_1'' \<noteq>
     sessions sample_manager ''session_p1_1''"
  by (simp add: sample_failed_turn)
    (simp add: sample_manager_def sample_session_def)

text \<open>
  Claim C7. When the session exists, the context is built, the generator
  returns a response with at least one action and the executor returns at
  least one error, \<open>ProcessPlayerInput\<close> returns the generator's response
  with one annotation put in front of its narrative, naming the number of
  errors, which is the number of failed actions; the suggestions and the
  actions of the response are returned as generated.
\<close>

theorem failed_actions_annotate_narrative:
  "sessions sm sessionID = Some sess \<and>
   currentSession =
     AddRecentAction (sess\<lparr>LastActive := nowGet\<rparr>) (''Player: '' @ playerInput) \<and>
   buildPromptContext ne currentSession nowContext = Inr promptData \<and>
   LLMAdapter ne (SystemPrompt ne) (promptData\<lparr>PlayerInput := playerInput\<rparr>) = Inr llmResponse \<and>
   Actions llmResponse \<noteq> [] \<and>
   executionErrors =
     fst (ExecuteActions (ActionExecutor ne) (Actions llmResponse) (Some currentSession)) \<and>
   executionErrors \<noteq> [] \<longrightarrow>
     fst (ProcessPlayerInput ne sm sessionID playerInput nowGet nowContext nowUpdate) =
       Inr (llmResponse\<lparr>Narrative :=
         ''[System Error processing actions: '' @ show_int (int (length executionErrors)) @
         '' error(s) occurred. The story continues...]'' @ [CHR 0x0A, CHR 0x0A] @
         Narrative llmResponse\<rparr>) \<and>
     length executionErrors =
       length (filter (\<lambda>slot. slot \<noteq> None)
         (sequential_outcomes (ActionExecutor ne) (Actions llmResponse) currentSession))"
proof -
  have count: "length (fst (ExecuteActions e actions (Some s))) =
      length (filter (\<lambda>slot. slot \<noteq> None) (sequential_outcomes e actions s))" for e actions s
    by (simp add: ExecuteActions_def execute_loop_outcomes)
  show ?thesis
    using process_generated [of sm sessionID sess ne nowGet playerInput nowContext promptData
        llmResponse nowUpdate]
      execute_response_failed [of llmResponse ne currentSession]
    by (auto simp: count errorNarrative_def)
qed

theorem failed_actions_annotate_narrative_witness:
  "map_sum id Narrative
     (fst (ProcessPlayerInput (sample_engine (fixed_adapter walk_response))
       sample_manager ''session_p1_1'' ''go'' 2 3 4)) =
     Inr (''[System Error processing actions: 1 error(s) occurred. The story continues...]''
          @ [CHR 0x0A, CHR 0x0A] @ ''You walk.'') \<and>
   map_sum id Actions
     (fst (ProcessPlayerInput (sample_engine (fixed_adapter walk_response))
       sample_manager ''session_p1_1'' ''go'' 2 3 4)) = Inr [move_to ''nowhere'']"
proof -
  let ?cur = "(sample_session ''gate'')\<lparr>LastActive := 2, RecentActions := [''Player: go'']\<rparr>"
  have 1: "sessions sample_manager ''session_p1_1'' = Some (sample_session ''gate'')"
    by (simp add: sample_manager_def)
  obtain pd where 2: "buildPromptContext (sample_engine (fixed_adapter walk_response)) ?cur 3
      = Inr pd"
    by (simp add: sample_context sample_gate)
  have 3: "LLMAdapter (sample_engine (fixed_adapter walk_response))
      (SystemPrompt (sample_engine (fixed_adapter walk_response)))
      (pd\<lparr>PlayerInput := ''go''\<rparr>) = Inr walk_response"
    by (simp add: sample_engine_def fixed_adapter_def)
  have 4: "Actions walk_response = [move_to ''nowhere'']"
    by (simp add: walk_response_def)
  have 5: "ActionExecutor (sample_engine (fixed_adapter walk_response)) = sample_executor"
    by (simp add: sample_engine_def)
  have 6: "Narrative walk_response = ''You walk.''"
    by (simp add: walk_response_def)
  show ?thesis
    using failed_actions_annotate_narrative [where sm = sample_manager
      and sessionID = "''session_p1_1''" and sess = "sample_session ''gate''"
      and nowGet = 2 and playerInput = "''go''" and nowContext = 3 and nowUpdate = 4
      and ne = "sample_engine (fixed_adapter walk_response)"
      and llmResponse = walk_response and currentSession = ?cur
      and executionErrors = "fst (ExecuteActions sample_executor [move_to ''nowhere'']
          (Some ?cur))"
      and promptData = pd] 1 2 3 sample_fetched
    by (simp add: 4 5 6 sample_execute_nowhere show_int_1)
qed

subsection \<open>Loading the world data\<close>

lemma theme_records_Cons:
  "theme_records (e # es) =
     (case theme_record e of None \<Rightarrow> theme_records es | Some t \<Rightarrow> t # theme_records es)"
  by (simp add: theme_records_def split: option.splits)

lemma location_records_Cons:
  "location_records (e # es) =
     (case location_record e of None \<Rightarrow> location_records es
      | Some l \<Rightarrow> l # location_records es)"
  by (simp add: location_records_def split: option.splits)

lemma load_theme_step:
  "load_theme e (ws, errs) =
     (case theme_record e of
        None \<Rightarrow> (ws, snd (load_theme e (ws, errs)))
      | Some t \<Rightarrow>
          if map_of (themes ws) (ThemeDefID t) \<noteq> None
          then (ws, snd (load_theme e (ws, errs)))
          else (ws\<lparr>themes := AList.update (ThemeDefID t) t (themes ws)\<rparr>, errs))"
  by (cases e) (auto simp: Let_def split: file_content.splits)

lemma load_theme_errors:
  "snd (load_theme e (ws, errs)) = [] \<longleftrightarrow>
     errs = [] \<and>
     (case theme_record e of
        None \<Rightarrow> (case e of Directory n \<Rightarrow> True | File n c \<Rightarrow> \<not> is_json_name n)
      | Some t \<Rightarrow> map_of (themes ws) (ThemeDefID t) = None)"
  by (cases e) (auto simp: Let_def split: file_content.splits)

lemma load_location_step:
  "load_location e (ws, errs) =
     (case location_record e of
        None \<Rightarrow> (ws, snd (load_location e (ws, errs)))
      | Some l \<Rightarrow>
          if map_of (locations ws) (LocID l) = None \<and>
             (ThemeID l = [] \<or> map_of (themes ws) (ThemeID l) \<noteq> None)
          then (ws\<lparr>locations := AList.update (LocID l) l (locations ws)\<rparr>, errs)
          else (ws, snd (load_location e (ws, errs))))"
  by (cases e) (auto simp: Let_def split: file_content.splits)

lemma load_location_errors:
  "snd (load_location e (ws, errs)) = [] \<longleftrightarrow>
     errs = [] \<and>
     (case location_record e of
        None \<Rightarrow> (case e of Directory n \<Rightarrow> True | File n c \<Rightarrow> \<not> is_json_name n)
      | Some l \<Rightarrow> map_of (locations ws) (LocID l) = None \<and>
                  (ThemeID l = [] \<or> map_of (themes ws) (ThemeID l) \<noteq> None))"
  by (cases e) (auto simp: Let_def split: file_content.splits)

lemma load_theme_fst:
  "fst (load_theme e (ws, errs)) =
     (case theme_record e of
        None \<Rightarrow> ws
      | Some t \<Rightarrow>
          if map_of (themes ws) (ThemeDefID t) \<noteq> None then ws
          else ws\<lparr>themes := AList.update (ThemeDefID t) t (themes ws)\<rparr>)"
  by (subst load_theme_step) (simp split: option.splits)

lemma load_location_fst:
  "fst (load_location e (ws, errs)) =
     (case location_record e of
        None \<Rightarrow> ws
      | Some l \<Rightarrow>
          if map_of (locations ws) (LocID l) = None \<and>
             (ThemeID l = [] \<or> map_of (themes ws) (ThemeID l) \<noteq> None)
          then ws\<lparr>locations := AList.update (LocID l) l (locations ws)\<rparr>
          else ws)"
  by (subst load_location_step) (simp split: option.splits)

lemma fold_load_theme_locations:
  "locations (fst (fold load_theme themeDir (ws, errs))) = locations ws"
proof (induction themeDir arbitrary: ws errs)
  case Nil
  then show ?case by simp
next
  case (Cons e es)
  have "locations (fst (load_theme e (ws, errs))) = locations ws"
    by (simp add: load_theme_fst split: option.splits)
  then show ?case
    using Cons [of "fst (load_theme e (ws, errs))" "snd (load_theme e (ws, errs))"]
    by simp
qed

lemma fold_load_location_themes:
  "themes (fst (fold load_location locationDir (ws, errs))) = themes ws"
proof (induction locationDir arbitrary: ws errs)
  case Nil
  then show ?case by simp
next
  case (Cons e es)
  have "themes (fst (load_location e (ws, errs))) = themes ws"
    by (simp add: load_location_fst split: option.splits)
  then show ?case
    using Cons [of "fst (load_location e (ws, errs))" "snd (load_location e (ws, errs))"]
    by simp
qed

lemma fold_load_theme_map:
  "map_of (themes (fst (fold load_theme themeDir (ws, errs)))) =
     map_of (themes ws @ keyed_themes (theme_records themeDir))"
proof (induction themeDir arbitrary: ws errs)
  case Nil
  then show ?case by (simp add: theme_records_def keyed_themes_def)
next
  case (Cons e es)
  have step: "map_of (themes (fst (load_theme e (ws, errs))) @ keyed_themes (theme_records es)) =
      map_of (themes ws @ keyed_themes (theme_records (e # es)))"
    by (rule ext)
      (auto simp: load_theme_fst theme_records_Cons keyed_themes_def AList.update_conv'
        map_add_def split: option.splits)
  show ?case
    using Cons [of "fst (load_theme e (ws, errs))" "snd (load_theme e (ws, errs))"] step
    by simp
qed

lemma fold_load_location_map:
  "map_of (locations (fst (fold load_location locationDir (ws, errs)))) =
     map_of (locations ws @
       keyed_locations (filter (theme_resolves (themes ws)) (location_records locationDir)))"
proof (induction locationDir arbitrary: ws errs)
  case Nil
  then show ?case by (simp add: location_records_def keyed_locations_def)
next
  case (Cons e es)
  have th: "themes (fst (load_location e (ws, errs))) = themes ws"
    by (simp add: load_location_fst split: option.splits)
  have step: "map_of (locations (fst (load_location e (ws, errs))) @
        keyed_locations (filter (theme_resolves (themes ws)) (location_records es))) =
      map_of (locations ws @
        keyed_locations (filter (theme_resolves (themes ws)) (location_records (e # es))))"
    by (rule ext)
      (auto simp: load_location_fst location_records_Cons keyed_locations_def
        AList.update_conv' map_add_def theme_resolves_def split: option.splits)
  show ?case
    using Cons [of "fst (load_location e (ws, errs))" "snd (load_location e (ws, errs))"] step
    by (simp add: th)
qed

lemma fold_load_theme_no_errors:
  "snd (fold load_theme themeDir (ws, errs)) = [] \<Longrightarrow>
     errs = [] \<and> distinct (map ThemeDefID (theme_records themeDir)) \<and>
     (\<forall>t \<in> set (theme_records themeDir). map_of (themes ws) (ThemeDefID t) = None)"
proof (induction themeDir arbitrary: ws errs)
  case Nil
  then show ?case by (simp add: theme_records_def)
next
  case (Cons e es)
  let ?ws1 = "fst (load_theme e (ws, errs))" and ?errs1 = "snd (load_theme e (ws, errs))"
  from Cons.prems have "snd (fold load_theme es (?ws1, ?errs1)) = []" by simp
  from Cons.IH [OF this]
  have e1: "?errs1 = []"
    and d: "distinct (map ThemeDefID (theme_records es))"
    and n: "\<forall>t \<in> set (theme_records es). map_of (themes ?ws1) (ThemeDefID t) = None"
    by auto
  from e1 have errs: "errs = []"
    and ok: "(case theme_record e of
        None \<Rightarrow> (case e of Directory n \<Rightarrow> True | File n c \<Rightarrow> \<not> is_json_name n)
      | Some t \<Rightarrow> map_of (themes ws) (ThemeDefID t) = None)"
    by (simp_all add: load_theme_errors)
  show ?case
  proof (cases "theme_record e")
    case None
    with d n errs show ?thesis
      by (simp add: theme_records_Cons load_theme_fst)
  next
    case (Some t)
    with ok have fresh: "map_of (themes ws) (ThemeDefID t) = None" by simp
    with Some have ws1: "themes ?ws1 = AList.update (ThemeDefID t) t (themes ws)"
      by (simp add: load_theme_fst)
    from n have "\<forall>t' \<in> set (theme_records es).
        ThemeDefID t' \<noteq> ThemeDefID t \<and> map_of (themes ws) (ThemeDefID t') = None"
      by (auto simp: ws1 AList.update_conv' split: if_splits)
    with d errs fresh Some show ?thesis
      by (auto simp: theme_records_Cons)
  qed
qed

lemma fold_load_location_no_errors:
  "snd (fold load_location locationDir (ws, errs)) = [] \<Longrightarrow>
     errs = [] \<and> distinct (map LocID (location_records locationDir)) \<and>
     (\<forall>l \<in> set (location_records locationDir).
        map_of (locations ws) (LocID l) = None \<and> theme_resolves (themes ws) l)"
proof (induction locationDir arbitrary: ws errs)
  case Nil
  then show ?case by (simp add: location_records_def)
next
  case (Cons e es)
  let ?ws1 = "fst (load_location e (ws, errs))" and ?errs1 = "snd (load_location e (ws, errs))"
  from Cons.prems have "snd (fold load_location es (?ws1, ?errs1)) = []" by simp
  from Cons.IH [OF this]
  have e1: "?errs1 = []"
    and d: "distinct (map LocID (location_records es))"
    and n: "\<forall>l \<in> set (location_records es).
        map_of (locations ?ws1) (LocID l) = None \<and> theme_resolves (themes ?ws1) l"
    by auto
  have th: "themes ?ws1 = themes ws"
    by (simp add: load_location_fst split: option.splits)
  from e1 have errs: "errs = []"
    and ok: "(case location_record e of
        None \<Rightarrow> (case e of Directory n \<Rightarrow> True | File n c \<Rightarrow> \<not> is_json_name n)
      | Some l \<Rightarrow> map_of (locations ws) (LocID l) = None \<and>
                  (ThemeID l = [] \<or> map_of (themes ws) (ThemeID l) \<noteq> None))"
    by (simp_all add: load_location_errors)
  show ?case
  proof (cases "location_record e")
    case None
    with d n errs th show ?thesis
      by (simp add: location_records_Cons load_location_fst)
  next
    case (Some l)
    with ok have fresh: "map_of (locations ws) (LocID l) = None"
      and res: "theme_resolves (themes ws) l"
      by (simp_all add: theme_resolves_def)
    with Some have ws1: "locations ?ws1 = AList.update (LocID l) l (locations ws)"
      by (simp add: load_location_fst theme_resolves_def)
    from n have "\<forall>l' \<in> set (location_records es).
        LocID l' \<noteq> LocID l \<and> map_of (locations ws) (LocID l') = None \<and>
        theme_resolves (themes ws) l'"
      by (auto simp: ws1 th AList.update_conv' split: if_splits)
    with d errs fresh res Some show ?thesis
      by (auto simp: location_records_Cons)
  qed
qed

lemma check_adjacent_empty:
  "check_adjacent ws loc adjs = [] \<longleftrightarrow> (\<forall>adjID \<in> set adjs. map_of (locations ws) adjID \<noteq> None)"
  by (induction adjs) auto

lemma check_adjacency_empty:
  "check_adjacency ws = [] \<longleftrightarrow>
     (\<forall>(k, loc) \<in> set (locations ws).
        \<forall>adjID \<in> set (AdjacentIDs loc). map_of (locations ws) adjID \<noteq> None)"
  by (auto simp: check_adjacency_def check_adjacent_empty)

lemma map_of_keyed_themes_None:
  "map_of (keyed_themes ts) k = None \<longleftrightarrow> k \<notin> set (map ThemeDefID ts)"
  by (induction ts) (auto simp: keyed_themes_def)

lemma map_of_keyed_locations_None:
  "map_of (keyed_locations ls) k = None \<longleftrightarrow> k \<notin> set (map LocID ls)"
  by (induction ls) (auto simp: keyed_locations_def)

lemma map_of_keyed_locations_Some:
  "distinct (map LocID ls) \<Longrightarrow> l \<in> set ls \<Longrightarrow> map_of (keyed_locations ls) (LocID l) = Some l"
  by (rule map_of_is_SomeI) (simp_all add: keyed_locations_def comp_def)

lemma theme_resolves_cong:
  "map_of ths = map_of ths' \<Longrightarrow> theme_resolves ths = theme_resolves ths'"
  by (rule ext) (simp add: theme_resolves_def)

lemma visit_entries_fold:
  "visit_entries (walk_callback body) entries st = Some (fold body entries st)"
  by (induction entries arbitrary: st) simp_all

lemma WalkDir_visited:
  "WalkDir (Visited entries) (walk_callback body) st = Some (fold body entries st)"
  by (simp add: WalkDir_def visit_entries_fold)

lemma WalkDir_unreadable: "WalkDir RootUnreadable (walk_callback body) st = None"
  by (simp add: WalkDir_def)

text \<open>
  A root that cannot be stat'ed: the callback is called with a nil entry and
  panics, so the load returns nothing, whatever the other directory holds.
\<close>

lemma unreadable_root_panics:
  "LoadWorldData ws locationDir RootUnreadable = Panics"
  "LoadWorldData ws RootUnreadable (Visited themeEntries) = Panics"
  by (simp_all add: LoadWorldData_def WalkDir_unreadable WalkDir_visited split: prod.splits)

lemma LoadWorldData_visited:
  "LoadWorldData ws (Visited locationEntries) (Visited themeEntries) =
     Returns
       (if snd (fold load_location locationEntries
                  (fold load_theme themeEntries (ws\<lparr>locations := [], themes := []\<rparr>, []))) = []
           \<and> check_adjacency
               (fst (fold load_location locationEntries
                  (fold load_theme themeEntries (ws\<lparr>locations := [], themes := []\<rparr>, []))))
             = []
        then None else Some ErrorsDuringLoading)
       (fst (fold load_location locationEntries
               (fold load_theme themeEntries (ws\<lparr>locations := [], themes := []\<rparr>, []))))"
  by (simp add: LoadWorldData_def WalkDir_visited Let_def case_prod_unfold)

lemma walks_themes:
  "map_of (themes (fst (fold load_location locationEntries
       (fold load_theme themeEntries (ws\<lparr>locations := [], themes := []\<rparr>, []))))) =
     map_of (keyed_themes (theme_records themeEntries))"
  using fold_load_theme_map [of themeEntries "ws\<lparr>locations := [], themes := []\<rparr>" "[]"]
    fold_load_location_themes [of locationEntries
      "fst (fold load_theme themeEntries (ws\<lparr>locations := [], themes := []\<rparr>, []))"
      "snd (fold load_theme themeEntries (ws\<lparr>locations := [], themes := []\<rparr>, []))"]
  by simp

lemma walks_locations:
  "map_of (locations (fst (fold load_location locationEntries
       (fold load_theme themeEntries (ws\<lparr>locations := [], themes := []\<rparr>, []))))) =
     map_of (keyed_locations
       (filter (theme_resolves (keyed_themes (theme_records themeEntries)))
          (location_records locationEntries)))"
proof -
  let ?ws0 = "ws\<lparr>locations := [], themes := []\<rparr>"
  let ?p1 = "fold load_theme themeEntries (?ws0, [])"
  have th: "map_of (themes (fst ?p1)) = map_of (keyed_themes (theme_records themeEntries))"
    using fold_load_theme_map [of themeEntries ?ws0 "[]"] by simp
  have lo: "locations (fst ?p1) = []"
    using fold_load_theme_locations [of themeEntries ?ws0 "[]"] by simp
  have "map_of (locations (fst (fold load_location locationEntries (fst ?p1, snd ?p1)))) =
      map_of (keyed_locations
        (filter (theme_resolves (themes (fst ?p1))) (location_records locationEntries)))"
    using fold_load_location_map [of locationEntries "fst ?p1" "snd ?p1"] by (simp add: lo)
  then show ?thesis
    by (simp add: theme_resolves_cong [OF th])
qed

lemma walks_no_errors:
  assumes "snd (fold load_location locationEntries
       (fold load_theme themeEntries (ws\<lparr>locations := [], themes := []\<rparr>, []))) = []"
    and "check_adjacency (fst (fold load_location locationEntries
       (fold load_theme themeEntries (ws\<lparr>locations := [], themes := []\<rparr>, [])))) = []"
  shows "\<not> dangling_theme_reference locationEntries themeEntries \<and>
     \<not> dangling_adjacency_reference locationEntries \<and>
     \<not> duplicate_identifier locationEntries themeEntries"
proof -
  let ?ws0 = "ws\<lparr>locations := [], themes := []\<rparr>"
  let ?p1 = "fold load_theme themeEntries (?ws0, [])"
  let ?p2 = "fold load_location locationEntries ?p1"
  let ?ls = "location_records locationEntries"
  from assms have e2: "snd ?p2 = []" and adj: "check_adjacency (fst ?p2) = []"
    by simp_all
  from e2 fold_load_location_no_errors [of locationEntries "fst ?p1" "snd ?p1"]
  have e1: "snd ?p1 = []" and dl: "distinct (map LocID ?ls)"
    and res: "\<forall>l \<in> set ?ls. theme_resolves (themes (fst ?p1)) l"
    by simp_all
  from fold_load_theme_no_errors [of themeEntries ?ws0 "[]"] e1
  have dt: "distinct (map ThemeDefID (theme_records themeEntries))" by simp
  have th: "map_of (themes (fst ?p1)) = map_of (keyed_themes (theme_records themeEntries))"
    using fold_load_theme_map [of themeEntries ?ws0 "[]"] by simp
  have no_theme: "\<not> dangling_theme_reference locationEntries themeEntries"
    using res by (auto simp: dangling_theme_reference_def theme_resolves_def th
        map_of_keyed_themes_None)
  have lo: "locations (fst ?p1) = []"
    using fold_load_theme_locations [of themeEntries ?ws0 "[]"] by simp
  have "filter (theme_resolves (themes (fst ?p1))) ?ls = ?ls"
    using res by (simp add: filter_id_conv)
  then have locs: "map_of (locations (fst ?p2)) = map_of (keyed_locations ?ls)"
    using fold_load_location_map [of locationEntries "fst ?p1" "snd ?p1"] by (simp add: lo)
  have no_adj: "\<not> dangling_adjacency_reference locationEntries"
  proof
    assume "dangling_adjacency_reference locationEntries"
    then obtain l adjID where l: "l \<in> set ?ls" and a: "adjID \<in> set (AdjacentIDs l)"
      and missing: "adjID \<notin> set (map LocID ?ls)"
      by (auto simp: dangling_adjacency_reference_def)
    from map_of_keyed_locations_Some [OF dl l] locs
    have "map_of (locations (fst ?p2)) (LocID l) = Some l" by simp
    then have "(LocID l, l) \<in> set (locations (fst ?p2))" by (rule map_of_SomeD)
    with adj a have "map_of (locations (fst ?p2)) adjID \<noteq> None"
      by (auto simp: check_adjacency_empty)
    then have "map_of (keyed_locations ?ls) adjID \<noteq> None"
      by (simp add: locs)
    with missing map_of_keyed_locations_None [of ?ls adjID] show False
      by blast
  qed
  from no_theme no_adj dl dt show ?thesis
    by (simp add: duplicate_identifier_def)
qed

lemma sample_json_names:
  "is_json_name ''ruins.json''" "is_json_name ''gate.json''" "is_json_name ''cave.json''"
  by (simp_all add: is_json_name_def HasSuffix_def ToLower_def lower_char_def)

lemma broken_theme_records:
  "theme_records broken_theme_dir = [\<lparr>ThemeDefID = ''ruins'', ThemeDefName = ''Ruins''\<rparr>]"
  by (simp add: theme_records_def broken_theme_dir_def sample_json_names theme_with_id_def)

lemma broken_location_records:
  "location_records broken_location_dir =
     [themed_location ''gate'' ''ruins'', themed_location ''cave'' ''missing'']"
  by (simp add: location_records_def broken_location_dir_def sample_json_names
        location_with_id_def themed_location_def plain_location_def)

lemma broken_load:
  "LoadWorldData sample_world (Visited broken_location_dir) (Visited broken_theme_dir) =
     Returns (Some ErrorsDuringLoading)
       \<lparr>locations = [(''gate'', themed_location ''gate'' ''ruins'')],
        themes = [(''ruins'', \<lparr>ThemeDefID = ''ruins'', ThemeDefName = ''Ruins''\<rparr>)]\<rparr>"
  by (simp add: LoadWorldData_visited broken_location_dir_def broken_theme_dir_def
        sample_json_names theme_with_id_def location_with_id_def themed_location_def
        plain_location_def sample_world_def check_adjacency_def Let_def)

text \<open>
  Claim C3, as the code has it, for a load whose two directories have a
  root that can be read. Such a load with a dangling theme reference, a
  dangling adjacency reference or a duplicate identifier returns an error.
  The graph loaded before is discarded in any case, and the graph that the
  queries observe afterwards holds the entries of the failed load that were
  accepted: under each theme identifier the first theme record with it, and
  under each location identifier the first location record with it among
  those whose theme reference is empty or resolves. That graph can be a
  partial one.
\<close>

theorem failed_load_keeps_accepted_entries:
  "dangling_theme_reference locationEntries themeEntries \<or>
   dangling_adjacency_reference locationEntries \<or>
   duplicate_identifier locationEntries themeEntries \<longrightarrow>
     (\<exists>ws'. LoadWorldData ws (Visited locationEntries) (Visited themeEntries) =
              Returns (Some ErrorsDuringLoading) ws' \<and>
            map_of (themes ws') = map_of (keyed_themes (theme_records themeEntries)) \<and>
            map_of (locations ws') =
              map_of (keyed_locations
                (filter (theme_resolves (keyed_themes (theme_records themeEntries)))
                   (location_records locationEntries))))"
  using walks_no_errors [of locationEntries themeEntries ws]
  by (auto simp: LoadWorldData_visited walks_themes walks_locations)

theorem failed_load_keeps_accepted_entries_witness:
  "dangling_theme_reference broken_location_dir broken_theme_dir \<and>
   (\<exists>ws'. LoadWorldData sample_world (Visited broken_location_dir) (Visited broken_theme_dir) =
            Returns (Some ErrorsDuringLoading) ws' \<and>
          map_of (locations ws') ''gate'' = Some (themed_location ''gate'' ''ruins'') \<and>
          map_of (locations ws') ''cave'' = None \<and>
          map_of (locations ws') ''village'' = None)"
proof -
  have d: "dangling_theme_reference broken_location_dir broken_theme_dir"
    by (simp add: dangling_theme_reference_def broken_theme_records broken_location_records
          themed_location_def plain_location_def)
  with failed_load_keeps_accepted_entries [of broken_location_dir broken_theme_dir
        sample_world]
  obtain ws' where r: "LoadWorldData sample_world (Visited broken_location_dir)
        (Visited broken_theme_dir) = Returns (Some ErrorsDuringLoading) ws'"
    and l: "map_of (locations ws') =
              map_of (keyed_locations
                (filter (theme_resolves (keyed_themes (theme_records broken_theme_dir)))
                   (location_records broken_location_dir)))"
    by blast
  have "map_of (locations ws') ''gate'' = Some (themed_location ''gate'' ''ruins'') \<and>
      map_of (locations ws') ''cave'' = None \<and> map_of (locations ws') ''village'' = None"
    by (simp add: l broken_theme_records broken_location_records keyed_themes_def
          keyed_locations_def theme_resolves_def themed_location_def plain_location_def)
  with d r show ?thesis by blast
qed

text \<open>
  Against claim C3 as stated: after the failed load over the sample world,
  a query for the gate returns the gate of the failed load, which is neither
  what the graph loaded before returns nor what an empty graph returns.
\<close>

theorem failed_load_counterexample:
  "dangling_theme_reference broken_location_dir broken_theme_dir \<and>
   LoadWorldData sample_world (Visited broken_location_dir) (Visited broken_theme_dir) =
     Returns (Some ErrorsDuringLoading)
       \<lparr>locations = [(''gate'', themed_location ''gate'' ''ruins'')],
        themes = [(''ruins'', \<lparr>ThemeDefID = ''ruins'', ThemeDefName = ''Ruins''\<rparr>)]\<rparr> \<and>
   GetLocation
       \<lparr>locations = [(''gate'', themed_location ''gate'' ''ruins'')],
        themes = [(''ruins'', \<lparr>ThemeDefID = ''ruins'', ThemeDefName = ''Ruins''\<rparr>)]\<rparr> ''gate''
     = Inr (themed_location ''gate'' ''ruins'') \<and>
   GetLocation sample_world ''gate'' = Inr (plain_location ''gate'' [''village'']) \<and>
   GetLocation NewInMemoryWorldSystem ''gate'' = Inl (LocationNotFound ''gate'') \<and>
   themed_location ''gate'' ''ruins'' \<noteq> plain_location ''gate'' [''village'']"
  by (simp add: broken_load dangling_theme_reference_def broken_theme_records
        broken_location_records)
    (simp add: GetLocation_def sample_world_def NewInMemoryWorldSystem_def
        themed_location_def plain_location_def)

end
